theory Spec2Isabelle
  imports Complex_Main
begin

section \<open>Conventions\<close>

text \<open>
  The three tools of the repository are Python programs. Their data is modelled as
  follows.
  \<^item> Python's unbounded integers are \<^typ>\<open>int\<close>; a count that the source produces with
    \<^verbatim>\<open>len\<close> or \<^verbatim>\<open>sum(1 for ...)\<close> is an \<^typ>\<open>int\<close> as well.
  \<^item> A \<^verbatim>\<open>str\<close> is a \<^typ>\<open>string\<close> of 8-bit characters: the texts handled here
    (URLs, state names, repository names, CSV cells) are ASCII.
  \<^item> A \<^verbatim>\<open>float\<close> is idealised as an exact rational number (\<^typ>\<open>rat\<close>): the
    rounding error of binary64 arithmetic, its infinities and its NaN are not modelled.
  \<^item> An exception is a value: a function that may raise returns \<open>py_error + 'a\<close>, with
    \<open>Inl\<close> for the exception.
\<close>

datatype py_error = KeyError | ValueError | AttributeError | TypeError | ZeroDivisionError

section \<open>PAT tool: data models (\<^verbatim>\<open>pr-analyser-pat/pr_analyser/models.py\<close>)\<close>

text \<open>
  A naive \<^verbatim>\<open>datetime\<close> of these models is the number of seconds since the epoch of the
  proleptic calendar; its calendar day (\<^verbatim>\<open>.date()\<close>) is the number of whole days.
\<close>

type_synonym naive_datetime = int

definition date_of :: "naive_datetime \<Rightarrow> int" where
  "date_of t = t div 86400"

record PRData =
  pr_id :: int
  number :: int
  title :: string
  description :: string
  repository :: string
  author :: string
  state :: string
  merged :: bool
  created_at :: naive_datetime
  updated_at :: naive_datetime
  merged_at :: "naive_datetime option"
  closed_at :: "naive_datetime option"
  source_branch :: string
  target_branch :: string
  additions :: int
  deletions :: int
  changed_files :: int
  comments_count :: int
  reviewers :: "string list"
  labels :: "string list"

definition total_changes :: "PRData \<Rightarrow> int" where
  "total_changes pr = additions pr + deletions pr"

definition status :: "PRData \<Rightarrow> string" where
  "status pr = (if merged pr then ''merged'' else state pr)"

record CommitData =
  sha :: string
  message :: string
  c_repository :: string
  c_author :: string
  author_email :: string
  authored_date :: naive_datetime
  committed_date :: naive_datetime
  c_additions :: int
  c_deletions :: int
  c_total_changes :: int
  files_changed :: "string list"

definition short_sha :: "CommitData \<Rightarrow> string" where
  "short_sha c = take 7 (sha c)"

definition short_message :: "CommitData \<Rightarrow> string" where
  "short_message c = takeWhile (\<lambda>ch. ch \<noteq> CHR 0x0A) (message c)"

record AnalysisResult =
  user :: string
  organization :: string
  analysis_date :: naive_datetime
  date_range :: "(string \<times> string option) list"
  total_prs :: int
  total_commits :: int
  repositories_contributed :: int
  pull_requests :: "PRData list"
  commits :: "CommitData list"

text \<open>
  The three counting properties are generator sums \<^verbatim>\<open>sum(1 for pr in ... if cond)\<close>:
  one is added for every pull request that passes the condition.
\<close>

definition merged_prs :: "AnalysisResult \<Rightarrow> int" where
  "merged_prs r = sum_list (map (\<lambda>pr. 1) (filter (\<lambda>pr. merged pr) (pull_requests r)))"

definition open_prs :: "AnalysisResult \<Rightarrow> int" where
  "open_prs r =
     sum_list (map (\<lambda>pr. 1) (filter (\<lambda>pr. state pr = ''open'') (pull_requests r)))"

definition closed_prs :: "AnalysisResult \<Rightarrow> int" where
  "closed_prs r =
     sum_list (map (\<lambda>pr. 1)
       (filter (\<lambda>pr. state pr = ''closed'' \<and> \<not> merged pr) (pull_requests r)))"

text \<open>
  How many of the three counts a pull request is counted by: one for each of the three
  generator conditions it passes. The counts partition the list of pull requests when
  every pull request is counted by exactly one of them.
\<close>

definition times_counted :: "PRData \<Rightarrow> nat" where
  "times_counted pr =
     (if merged pr then 1 else 0) + (if state pr = ''open'' then 1 else 0)
     + (if state pr = ''closed'' \<and> \<not> merged pr then 1 else 0)"

definition counts_partition :: "AnalysisResult \<Rightarrow> bool" where
  "counts_partition r = list_all (\<lambda>pr. times_counted pr = 1) (pull_requests r)"

text \<open>Test data: a pull request and an analysis result that hold nothing but the given
  state, merged flag and repository.\<close>

definition a_pr :: "string \<Rightarrow> bool \<Rightarrow> string \<Rightarrow> PRData" where
  "a_pr st mg repo =
     \<lparr>pr_id = 1, number = 1, title = ''t'', description = [], repository = repo,
      author = ''u'', state = st, merged = mg, created_at = 0, updated_at = 0,
      merged_at = None, closed_at = None, source_branch = ''f'', target_branch = ''main'',
      additions = 0, deletions = 0, changed_files = 0, comments_count = 0,
      reviewers = [], labels = []\<rparr>"

definition a_result :: "PRData list \<Rightarrow> CommitData list \<Rightarrow> AnalysisResult" where
  "a_result prs cs =
     \<lparr>user = ''u'', organization = ''o'', analysis_date = 0, date_range = [],
      total_prs = int (length prs), total_commits = int (length cs),
      repositories_contributed = 0, pull_requests = prs, commits = cs\<rparr>"

definition a_commit :: "string \<Rightarrow> int \<Rightarrow> CommitData" where
  "a_commit repo day =
     \<lparr>sha = ''abc123def456'', message = ''m'', c_repository = repo, c_author = ''u'',
      author_email = ''u@example.com'', authored_date = day * 86400,
      committed_date = day * 86400, c_additions = 0, c_deletions = 0, c_total_changes = 0,
      files_changed = []\<rparr>"

section \<open>Analyzer: contribution metrics (\<^verbatim>\<open>pr-analyser/pr_analyser/analyzer.py\<close>)\<close>

text \<open>
  Modelled from the spec: the model classes that \<^verbatim>\<open>analyzer.py\<close> imports from the
  \<^verbatim>\<open>models\<close> module of its own tree. The spec states that both PAT variants share one
  data model, so the records above (from the \<^verbatim>\<open>models.py\<close> of the PAT tree) stand for
  them, and \<open>ContributionMetrics\<close> is the last class of that file.
\<close>

record ContributionMetrics =
  total_contributions :: int
  prs_created :: int
  prs_merged :: int
  prs_closed :: int
  commits_made :: int
  lines_added :: int
  lines_deleted :: int
  files_modified :: int
  repositories_touched :: int
  average_pr_size :: rat
  merge_rate :: rat
  most_active_repository :: string
  contribution_streak :: int

text \<open>
  The two data frames are lists of rows, one row per pull request or commit, with the
  columns that \<^verbatim>\<open>_create_pr_dataframe\<close> and \<^verbatim>\<open>_create_commit_dataframe\<close> fill. A data
  frame is \<^verbatim>\<open>.empty\<close> when it has no row; \<^verbatim>\<open>pd.to_datetime\<close> leaves the time stamps
  as they are. Column sums are exact integers (the 64-bit range of pandas is not
  modelled).
\<close>

record pr_row =
  p_id :: int
  p_number :: int
  p_title :: string
  p_repository :: string
  p_status :: string
  p_created_at :: naive_datetime
  p_merged_at :: "naive_datetime option"
  p_closed_at :: "naive_datetime option"
  p_additions :: int
  p_deletions :: int
  p_total_changes :: int
  p_changed_files :: int
  p_comments_count :: int
  p_reviewers_count :: int
  p_labels_count :: int

record commit_row =
  k_sha :: string
  k_short_sha :: string
  k_message :: string
  k_repository :: string
  k_authored_date :: naive_datetime
  k_committed_date :: naive_datetime
  k_additions :: int
  k_deletions :: int
  k_total_changes :: int
  k_files_changed_count :: int

definition create_pr_dataframe :: "AnalysisResult \<Rightarrow> pr_row list" where
  "create_pr_dataframe r =
     map (\<lambda>pr. \<lparr>p_id = pr_id pr, p_number = number pr, p_title = title pr,
                p_repository = repository pr, p_status = status pr,
                p_created_at = created_at pr, p_merged_at = merged_at pr,
                p_closed_at = closed_at pr, p_additions = additions pr,
                p_deletions = deletions pr, p_total_changes = total_changes pr,
                p_changed_files = changed_files pr, p_comments_count = comments_count pr,
                p_reviewers_count = int (length (reviewers pr)),
                p_labels_count = int (length (labels pr))\<rparr>)
       (pull_requests r)"

definition create_commit_dataframe :: "AnalysisResult \<Rightarrow> commit_row list" where
  "create_commit_dataframe r =
     map (\<lambda>c. \<lparr>k_sha = sha c, k_short_sha = short_sha c, k_message = short_message c,
               k_repository = c_repository c, k_authored_date = authored_date c,
               k_committed_date = committed_date c, k_additions = c_additions c,
               k_deletions = c_deletions c, k_total_changes = c_total_changes c,
               k_files_changed_count = int (length (files_changed c))\<rparr>)
       (commits r)"

text \<open>
  \<^verbatim>\<open>round(x, 2)\<close>: the nearest multiple of one hundredth, a tie going to the even one.
\<close>

definition round_half_even :: "rat \<Rightarrow> int" where
  "round_half_even x =
     (let f = \<lfloor>x\<rfloor>; d = x - of_int f
      in if d < 1 / 2 then f else if 1 / 2 < d then f + 1 else if even f then f else f + 1)"

definition round2 :: "rat \<Rightarrow> rat" where
  "round2 x = of_int (round_half_even (x * 100)) / 100"

text \<open>
  \<^verbatim>\<open>Counter(xs)\<close> keeps its keys in the order of their first occurrence; it is an
  association list. \<^verbatim>\<open>most_common(1)\<close> takes the maximum of the items by count, and
  \<^verbatim>\<open>max\<close> keeps the first of several maximal items.
\<close>

fun counter_add :: "(string \<times> int) list \<Rightarrow> string \<Rightarrow> (string \<times> int) list" where
  "counter_add [] k = [(k, 1)]"
| "counter_add ((k', n) # kvs) k =
     (if k' = k then (k', n + 1) # kvs else (k', n) # counter_add kvs k)"

definition Counter :: "string list \<Rightarrow> (string \<times> int) list" where
  "Counter xs = foldl counter_add [] xs"

definition most_common1 :: "(string \<times> int) list \<Rightarrow> (string \<times> int) list" where
  "most_common1 c =
     (case c of [] \<Rightarrow> []
      | x # xs \<Rightarrow> [foldl (\<lambda>best y. if snd best < snd y then y else best) x xs])"

text \<open>
  \<^verbatim>\<open>_calculate_contribution_streak\<close>. The distinct calendar days of the commits are
  walked from the latest one down; \<open>current_date\<close> starts as today's day number, which is
  a parameter of the model (\<^verbatim>\<open>datetime.now().date()\<close>).
\<close>

fun streak_loop :: "int \<Rightarrow> int \<Rightarrow> int list \<Rightarrow> int" where
  "streak_loop current_date streak [] = streak"
| "streak_loop current_date streak (commit_date # rest) =
     (if current_date - commit_date = streak
      then streak_loop commit_date (streak + 1) rest
      else streak)"

definition calculate_contribution_streak :: "int \<Rightarrow> commit_row list \<Rightarrow> int" where
  "calculate_contribution_streak today commit_df =
     (if commit_df = [] then 0
      else let commit_dates = rev (sort (remdups (map (\<lambda>row. date_of (k_authored_date row)) commit_df)))
           in if commit_dates = [] then 0 else streak_loop today 0 commit_dates)"

text \<open>
  \<^verbatim>\<open>calculate_contribution_metrics\<close>. A Python \<^verbatim>\<open>set\<close> of strings is listed in an order
  that the language leaves open: \<open>set_order\<close>, a parameter, maps a column to the list of
  its distinct values in the order in which the set built from it is iterated. The three
  maxima are integers, which the final \<^verbatim>\<open>int(...)\<close> leaves as they are.
\<close>

definition calculate_contribution_metrics ::
  "(string list \<Rightarrow> string list) \<Rightarrow> int \<Rightarrow> AnalysisResult \<Rightarrow> ContributionMetrics" where
  "calculate_contribution_metrics set_order today r =
     (let pr_df = create_pr_dataframe r; commit_df = create_commit_dataframe r
      in if pr_df = [] \<and> commit_df = [] then
           \<lparr>total_contributions = 0, prs_created = 0, prs_merged = 0, prs_closed = 0,
            commits_made = 0, lines_added = 0, lines_deleted = 0, files_modified = 0,
            repositories_touched = 0, average_pr_size = 0, merge_rate = 0,
            most_active_repository = [], contribution_streak = 0\<rparr>
         else
           let created = (if pr_df \<noteq> [] then int (length pr_df) else 0);
               n_merged = (if pr_df \<noteq> []
                           then int (length (filter (\<lambda>row. p_status row = ''merged'') pr_df))
                           else 0);
               n_closed = (if pr_df \<noteq> []
                           then int (length (filter (\<lambda>row. p_status row = ''closed'') pr_df))
                           else 0);
               made = (if commit_df \<noteq> [] then int (length commit_df) else 0);
               pr_lines_added = (if pr_df \<noteq> [] then sum_list (map p_additions pr_df) else 0);
               pr_lines_deleted = (if pr_df \<noteq> [] then sum_list (map p_deletions pr_df) else 0);
               pr_files_modified =
                 (if pr_df \<noteq> [] then sum_list (map p_changed_files pr_df) else 0);
               commit_lines_added =
                 (if commit_df \<noteq> [] then sum_list (map k_additions commit_df) else 0);
               commit_lines_deleted =
                 (if commit_df \<noteq> [] then sum_list (map k_deletions commit_df) else 0);
               commit_files_modified =
                 (if commit_df \<noteq> [] then sum_list (map k_files_changed_count commit_df) else 0);
               pr_repos = (if pr_df \<noteq> [] then set_order (map p_repository pr_df) else []);
               commit_repos =
                 (if commit_df \<noteq> [] then set_order (map k_repository commit_df) else []);
               avg = (if pr_df \<noteq> []
                      then of_int (sum_list (map p_total_changes pr_df)) / of_int (int (length pr_df))
                      else 0);
               rate = (if 0 < created then of_int n_merged / of_int created * 100 else 0);
               all_repos = pr_repos @ commit_repos;
               repo_counter = Counter all_repos
           in \<lparr>total_contributions = created + made, prs_created = created,
               prs_merged = n_merged, prs_closed = n_closed, commits_made = made,
               lines_added = max pr_lines_added commit_lines_added,
               lines_deleted = max pr_lines_deleted commit_lines_deleted,
               files_modified = max pr_files_modified commit_files_modified,
               repositories_touched = int (length (remdups (pr_repos @ commit_repos))),
               average_pr_size = round2 avg, merge_rate = round2 rate,
               most_active_repository =
                 (if repo_counter \<noteq> [] then fst (hd (most_common1 repo_counter)) else []),
               contribution_streak = calculate_contribution_streak today commit_df\<rparr>)"

text \<open>The calendar days on which the commits of an analysis result were authored.\<close>

definition commit_days :: "AnalysisResult \<Rightarrow> int set" where
  "commit_days r = set (map (\<lambda>c. date_of (authored_date c)) (commits r))"

text \<open>
  The combined number of pull-request rows and commit rows of a repository, as the spec
  words the ranking of \<open>most_active_repository\<close>.
\<close>

definition combined_row_count :: "AnalysisResult \<Rightarrow> string \<Rightarrow> int" where
  "combined_row_count r repo =
     int (length (filter (\<lambda>pr. repository pr = repo) (pull_requests r)))
     + int (length (filter (\<lambda>c. c_repository c = repo) (commits r)))"

text \<open>Test data: three pull requests in repository A, one pull request and one commit in
  repository B; and the fixture of the repository's tests (one pull request with 150
  additions, 25 deletions and 5 changed files, one commit with 120 additions, 15
  deletions and 3 changed files).\<close>

definition skewed_result :: AnalysisResult where
  "skewed_result =
     a_result [a_pr ''closed'' True ''A'', a_pr ''closed'' True ''A'', a_pr ''closed'' True ''A'',
               a_pr ''closed'' True ''B''] [a_commit ''B'' 0]"


section \<open>Scraper: data models (\<^verbatim>\<open>github-pr-scraper/github_pr_scraper/models.py\<close>)\<close>

text \<open>
  A JSON document as \<^verbatim>\<open>json.loads\<close> returns it; the numbers of the documents read
  here (pull-request numbers, line counts) are integers.
\<close>

datatype json =
  JNull | JBool bool | JInt int | JStr string | JArr "json list" | JObj "(string \<times> json) list"

text \<open>
  A \<^verbatim>\<open>datetime\<close> of the scraper is an instant in microseconds, offset-aware (parsed
  from a text with a UTC offset) or offset-naive (parsed from a date without one, or
  taken from the clock). Python orders and subtracts two datetimes only when both are
  aware or both are naive, and raises \<^verbatim>\<open>TypeError\<close> otherwise.
\<close>

datatype datetime = Naive int | Aware int

fun dt_less :: "datetime \<Rightarrow> datetime \<Rightarrow> py_error + bool" where
  "dt_less (Naive a) (Naive b) = Inr (a < b)"
| "dt_less (Aware a) (Aware b) = Inr (a < b)"
| "dt_less _ _ = Inl TypeError"

fun dt_diff :: "datetime \<Rightarrow> datetime \<Rightarrow> py_error + int" where
  "dt_diff (Naive a) (Naive b) = Inr (a - b)"
| "dt_diff (Aware a) (Aware b) = Inr (a - b)"
| "dt_diff _ _ = Inl TypeError"

record ReviewMetrics =
  total_reviewers :: int
  unique_reviewers :: "string list"
  review_comments_count :: int
  approvals_count :: int
  changes_requested_count :: int
  review_cycles :: int
  time_to_first_review_hours :: "rat option"
  average_review_response_time_hours :: "rat option"

record TimeMetrics =
  time_open_hours :: "rat option"
  time_to_merge_hours :: "rat option"
  time_in_draft_hours :: "rat option"
  time_from_last_commit_to_merge_hours :: "rat option"
  business_days_open :: "int option"

record FileAnalysis =
  total_files_changed :: int
  file_types :: "(string \<times> int) list"
  programming_languages :: "(string \<times> int) list"
  largest_file_changes :: "(string \<times> json) list list"
  binary_files_count :: int
  test_files_count :: int
  documentation_files_count :: int

record EngagementMetrics =
  reactions :: "(string \<times> int) list"
  discussion_participants :: "string list"
  total_discussion_comments :: int
  mentioned_users :: "string list"
  cross_references :: "string list"

text \<open>The default values of the four metric classes.\<close>

definition ReviewMetrics0 :: ReviewMetrics where
  "ReviewMetrics0 =
     \<lparr>total_reviewers = 0, unique_reviewers = [], review_comments_count = 0,
      approvals_count = 0, changes_requested_count = 0, review_cycles = 0,
      time_to_first_review_hours = None, average_review_response_time_hours = None\<rparr>"

definition TimeMetrics0 :: TimeMetrics where
  "TimeMetrics0 =
     \<lparr>time_open_hours = None, time_to_merge_hours = None, time_in_draft_hours = None,
      time_from_last_commit_to_merge_hours = None, business_days_open = None\<rparr>"

definition FileAnalysis0 :: FileAnalysis where
  "FileAnalysis0 =
     \<lparr>total_files_changed = 0, file_types = [], programming_languages = [],
      largest_file_changes = [], binary_files_count = 0, test_files_count = 0,
      documentation_files_count = 0\<rparr>"

definition EngagementMetrics0 :: EngagementMetrics where
  "EngagementMetrics0 =
     \<lparr>reactions = [], discussion_participants = [], total_discussion_comments = 0,
      mentioned_users = [], cross_references = []\<rparr>"

text \<open>
  \<open>GitHubPRData\<close>. The fields whose name is also a field of the PAT tool's \<open>PRData\<close>
  or a variable of a function modelled below carry the prefix \<open>g_\<close>.
\<close>

record GitHubPRData =
  g_repository :: string
  g_pr_number :: int
  g_title :: string
  g_description :: string
  g_url :: string
  g_author :: string
  author_avatar_url :: string
  g_state :: string
  is_draft :: bool
  g_created_at :: datetime
  g_updated_at :: "datetime option"
  g_merged_at :: "datetime option"
  g_closed_at :: "datetime option"
  g_source_branch :: string
  g_target_branch :: string
  source_repository :: string
  g_additions :: int
  g_deletions :: int
  commits_count :: int
  g_labels :: "string list"
  milestone :: "string option"
  linked_issues :: "string list"
  review_metrics :: ReviewMetrics
  time_metrics :: TimeMetrics
  file_analysis :: FileAnalysis
  engagement_metrics :: EngagementMetrics
  is_security_fix :: bool
  is_breaking_change :: bool
  deployment_info :: "(string \<times> json) list"
  ci_status :: "(string \<times> string) list"

definition net_lines_changed :: "GitHubPRData \<Rightarrow> int" where
  "net_lines_changed pr = g_additions pr - g_deletions pr"


definition g_status :: "GitHubPRData \<Rightarrow> string" where
  "g_status pr =
     (if g_state pr = ''closed'' \<and> g_merged_at pr \<noteq> None then ''merged''
      else if g_state pr = ''closed'' then ''closed'' else ''open'')"


record ScrapingResult =
  prs :: "GitHubPRData list"
  total_processed :: int
  successful_scrapes :: int
  failed_scrapes :: int
  errors :: "string list"
  processing_time_seconds :: rat

text \<open>
  Python's true division of two integers raises \<^verbatim>\<open>ZeroDivisionError\<close> for the
  divisor 0.
\<close>

definition py_truediv :: "int \<Rightarrow> int \<Rightarrow> py_error + rat" where
  "py_truediv a b = (if b = 0 then Inl ZeroDivisionError else Inr (of_int a / of_int b))"

definition success_rate :: "ScrapingResult \<Rightarrow> py_error + rat" where
  "success_rate r =
     (if total_processed r = 0 then Inr 0
      else case py_truediv (successful_scrapes r) (total_processed r) of
             Inl e \<Rightarrow> Inl e
           | Inr q \<Rightarrow> Inr (q * 100))"


definition a_scraping_result :: "int \<Rightarrow> int \<Rightarrow> ScrapingResult" where
  "a_scraping_result n ok =
     \<lparr>prs = [], total_processed = n, successful_scrapes = ok,
      failed_scrapes = n - ok, errors = [], processing_time_seconds = 0\<rparr>"


section \<open>Enhancement script (\<^verbatim>\<open>github-pr-scraper/enhance_pr_data.py\<close>)\<close>

text \<open>
  \<open>extract_repo_from_url\<close> applies \<^verbatim>\<open>re.match\<close> with the pattern
  \<^verbatim>\<open>https://github\.com/([^/]+)/([^/]+)/pull/\d+\<close>. The pattern is a sequence of
  literal characters and of greedy repetitions \<open>c+\<close> of a character class, two of them
  capturing groups. \<^verbatim>\<open>re.match\<close> anchors the pattern at the start of the text and
  nowhere else: the match succeeds when the items are used up. A repetition takes the
  longest run of characters of its class first and gives characters back one at a time
  while the rest of the pattern fails. Among 8-bit characters the class \<^verbatim>\<open>\d\<close> holds
  the digits 0 to 9.
\<close>

datatype char_class = NotSlash | Digit

datatype re_item = Lit char | Plus char_class | GroupPlus char_class

fun in_class :: "char_class \<Rightarrow> char \<Rightarrow> bool" where
  "in_class NotSlash c = (c \<noteq> CHR ''/'')"
| "in_class Digit c = (c \<in> set ''0123456789'')"

fun first_match :: "(nat \<Rightarrow> 'a option) \<Rightarrow> nat \<Rightarrow> 'a option" where
  "first_match f 0 = None"
| "first_match f (Suc n) = (case f (Suc n) of Some r \<Rightarrow> Some r | None \<Rightarrow> first_match f n)"

fun re_match :: "re_item list \<Rightarrow> string \<Rightarrow> string list option" where
  "re_match [] s = Some []"
| "re_match (Lit c # items) s =
     (case s of [] \<Rightarrow> None | x # xs \<Rightarrow> if x = c then re_match items xs else None)"
| "re_match (Plus k # items) s =
     first_match (\<lambda>n. re_match items (drop n s)) (length (takeWhile (in_class k) s))"
| "re_match (GroupPlus k # items) s =
     first_match (\<lambda>n. map_option (\<lambda>groups. take n s # groups) (re_match items (drop n s)))
       (length (takeWhile (in_class k) s))"

definition pr_url_pattern :: "re_item list" where
  "pr_url_pattern =
     map Lit ''https://github.com/'' @ [GroupPlus NotSlash, Lit CHR ''/'', GroupPlus NotSlash]
     @ map Lit ''/pull/'' @ [Plus Digit]"

definition extract_repo_from_url :: "string \<Rightarrow> string option" where
  "extract_repo_from_url url =
     (case re_match pr_url_pattern url of
        Some [owner, repo] \<Rightarrow> Some (owner @ ''/'' @ repo)
      | _ \<Rightarrow> None)"

text \<open>
  The shape of a pull-request URL as the spec writes it,
  \<^verbatim>\<open>https://github.com/<owner>/<repo>/pull/<digits>\<close>, followed by \<open>rest\<close>; the URL has
  exactly that shape when \<open>rest\<close> is empty.
\<close>

definition has_shape :: "string \<Rightarrow> string \<Rightarrow> string \<Rightarrow> string \<Rightarrow> string \<Rightarrow> bool" where
  "has_shape url owner repo digits rest \<longleftrightarrow>
     url = ''https://github.com/'' @ owner @ ''/'' @ repo @ ''/pull/'' @ digits @ rest
     \<and> owner \<noteq> [] \<and> CHR ''/'' \<notin> set owner \<and> repo \<noteq> [] \<and> CHR ''/'' \<notin> set repo
     \<and> digits \<noteq> [] \<and> list_all (in_class Digit) digits"

text \<open>
  \<open>enhance_pr_data\<close>. A row of \<^verbatim>\<open>csv.DictReader\<close> maps the column names of the header
  to cells; the cell of a column that a short row lacks is \<^verbatim>\<open>None\<close>. A record that
  the function emits is a Python dictionary with JSON-like values, an association list
  in the order of its keys.
\<close>

type_synonym cell = "string option"

type_synonym csv_row = "string \<rightharpoonup> cell"

type_synonym pr_record = "(string \<times> json) list"

definition cell_json :: "cell \<Rightarrow> json" where
  "cell_json c = (case c of None \<Rightarrow> JNull | Some s \<Rightarrow> JStr s)"

definition py_bind :: "py_error + 'a \<Rightarrow> ('a \<Rightarrow> py_error + 'b) \<Rightarrow> py_error + 'b" where
  "py_bind m f = (case m of Inl e \<Rightarrow> Inl e | Inr x \<Rightarrow> f x)"

text \<open>\<^verbatim>\<open>row[k]\<close> raises \<^verbatim>\<open>KeyError\<close> for a column the header lacks;
  \<^verbatim>\<open>row.get(k, default)\<close> gives the default then.\<close>

definition row_item :: "csv_row \<Rightarrow> string \<Rightarrow> py_error + cell" where
  "row_item row k = (case row k of None \<Rightarrow> Inl KeyError | Some c \<Rightarrow> Inr c)"

definition row_get :: "csv_row \<Rightarrow> string \<Rightarrow> cell \<Rightarrow> cell" where
  "row_get row k dflt = (case row k of None \<Rightarrow> dflt | Some c \<Rightarrow> c)"

text \<open>
  \<^verbatim>\<open>str.isdigit\<close>: a text that is not empty and holds digits only. \<^verbatim>\<open>int(s)\<close>: the
  value of an optional sign followed by decimal digits, \<^verbatim>\<open>ValueError\<close> for another
  text. (\<^verbatim>\<open>int\<close> also accepts blanks around the number and underscores between
  digits; where the script calls it, the text holds digits and minus signs only.)
\<close>

definition isdigit :: "string \<Rightarrow> bool" where
  "isdigit s \<longleftrightarrow> s \<noteq> [] \<and> list_all (in_class Digit) s"

definition decimal_value :: "string \<Rightarrow> int" where
  "decimal_value s = foldl (\<lambda>acc c. acc * 10 + (int (of_char c) - 48)) 0 s"

definition py_int :: "string \<Rightarrow> py_error + int" where
  "py_int s =
     (case s of
        [] \<Rightarrow> Inl ValueError
      | c # cs \<Rightarrow>
          if c = CHR ''-'' then (if isdigit cs then Inr (- decimal_value cs) else Inl ValueError)
          else if c = CHR ''+'' then (if isdigit cs then Inr (decimal_value cs) else Inl ValueError)
          else if isdigit s then Inr (decimal_value s) else Inl ValueError)"

text \<open>
  \<^verbatim>\<open>int(row.get(k, 0)) if row.get(k, '').isdigit() else 0\<close>, and the variant for the
  column "Net Lines", which removes every minus sign before the digit test. A cell that
  is \<^verbatim>\<open>None\<close> has no method \<^verbatim>\<open>isdigit\<close> or \<^verbatim>\<open>replace\<close>.
\<close>

definition digits_or_zero :: "csv_row \<Rightarrow> string \<Rightarrow> py_error + int" where
  "digits_or_zero row k =
     (case row_get row k (Some []) of
        None \<Rightarrow> Inl AttributeError
      | Some s \<Rightarrow> if isdigit s then py_int s else Inr 0)"

definition net_lines_or_zero :: "csv_row \<Rightarrow> py_error + int" where
  "net_lines_or_zero row =
     (case row_get row ''Net Lines'' (Some []) of
        None \<Rightarrow> Inl AttributeError
      | Some s \<Rightarrow> if isdigit (filter (\<lambda>c. c \<noteq> CHR ''-'') s) then py_int s else Inr 0)"

text \<open>The record of the \<^verbatim>\<open>else\<close> branch, built from the row alone; its entries are
  evaluated in the order of the source.\<close>

definition reduced_record :: "csv_row \<Rightarrow> string \<Rightarrow> cell \<Rightarrow> py_error + pr_record" where
  "reduced_record row owner_repo pr_number =
     py_bind (row_item row ''Title'') (\<lambda>title.
     py_bind (row_item row ''State'') (\<lambda>original_state.
     py_bind (row_item row ''Created At'') (\<lambda>created.
     py_bind (digits_or_zero row ''Additions'') (\<lambda>original_additions.
     py_bind (digits_or_zero row ''Deletions'') (\<lambda>original_deletions.
     py_bind (net_lines_or_zero row) (\<lambda>net_lines.
     py_bind (row_item row ''URL'') (\<lambda>u.
       Inr [(''repository'', JStr owner_repo),
            (''pr_number'', cell_json pr_number),
            (''title'', cell_json title),
            (''original_state'', cell_json original_state),
            (''created_at'', cell_json created),
            (''merged_at'', cell_json (row_get row ''Merged At'' (Some []))),
            (''closed_at'', cell_json (row_get row ''Closed At'' (Some []))),
            (''original_additions'', JInt original_additions),
            (''original_deletions'', JInt original_deletions),
            (''net_lines'', JInt net_lines),
            (''url'', cell_json u),
            (''description'', JStr []),
            (''enhancement_failed'', JBool True)])))))))"

text \<open>The truth value of a JSON document in an \<^verbatim>\<open>if\<close>.\<close>

fun truthy :: "json \<Rightarrow> bool" where
  "truthy JNull = False"
| "truthy (JBool b) = b"
| "truthy (JInt n) = (n \<noteq> 0)"
| "truthy (JStr s) = (s \<noteq> [])"
| "truthy (JArr xs) = (xs \<noteq> [])"
| "truthy (JObj kvs) = (kvs \<noteq> [])"

text \<open>
  The loop of \<open>enhance_pr_data\<close> over the rows, up to the list \<open>enhanced_prs\<close> that is
  written to the JSON file and, one line per record, to the CSV file. Two parts of the
  environment are parameters:
  \<^item> \<open>get_pr_details\<close>, the outcome of the call of the GitHub CLI for a repository and a
    pull-request number: the parsed document, or \<open>None\<close> (exit code other than 0, timeout,
    any exception; the function of the source catches them all);
  \<^item> \<open>enhanced_record\<close>, the record that the \<^verbatim>\<open>if pr_details:\<close> branch builds from the row
    and the document, or the exception it raises on a document of an unexpected form.
  An exception leaves the function before anything is written.
\<close>

definition process_row ::
  "(string \<Rightarrow> cell \<Rightarrow> json option) \<Rightarrow> (csv_row \<Rightarrow> string \<Rightarrow> cell \<Rightarrow> json \<Rightarrow> py_error + pr_record)
   \<Rightarrow> csv_row \<Rightarrow> py_error + pr_record list" where
  "process_row get_pr_details enhanced_record row =
     py_bind (row_item row ''URL'') (\<lambda>u.
     py_bind (case u of None \<Rightarrow> Inl TypeError | Some s \<Rightarrow> Inr (extract_repo_from_url s))
       (\<lambda>owner_repo.
     py_bind (row_item row ''PR #'') (\<lambda>pr_number.
       case owner_repo of
         None \<Rightarrow> Inr []
       | Some repo \<Rightarrow>
           (case get_pr_details repo pr_number of
              None \<Rightarrow> py_bind (reduced_record row repo pr_number) (\<lambda>r. Inr [r])
            | Some pr_details \<Rightarrow>
                if truthy pr_details
                then py_bind (enhanced_record row repo pr_number pr_details) (\<lambda>r. Inr [r])
                else py_bind (reduced_record row repo pr_number) (\<lambda>r. Inr [r])))))"

fun enhance_rows ::
  "(string \<Rightarrow> cell \<Rightarrow> json option) \<Rightarrow> (csv_row \<Rightarrow> string \<Rightarrow> cell \<Rightarrow> json \<Rightarrow> py_error + pr_record)
   \<Rightarrow> pr_record list \<Rightarrow> csv_row list \<Rightarrow> py_error + pr_record list" where
  "enhance_rows get_pr_details enhanced_record enhanced_prs [] = Inr enhanced_prs"
| "enhance_rows get_pr_details enhanced_record enhanced_prs (row # rows) =
     py_bind (process_row get_pr_details enhanced_record row) (\<lambda>new.
       enhance_rows get_pr_details enhanced_record (enhanced_prs @ new) rows)"

definition enhance_pr_data ::
  "(string \<Rightarrow> cell \<Rightarrow> json option) \<Rightarrow> (csv_row \<Rightarrow> string \<Rightarrow> cell \<Rightarrow> json \<Rightarrow> py_error + pr_record)
   \<Rightarrow> csv_row list \<Rightarrow> py_error + pr_record list" where
  "enhance_pr_data get_pr_details enhanced_record rows =
     enhance_rows get_pr_details enhanced_record [] rows"

text \<open>Test data: a row of the contribution CSV with the given URL and "Net Lines" cell.\<close>

definition a_row :: "string \<Rightarrow> string \<Rightarrow> csv_row" where
  "a_row u net =
     [''PR #'' \<mapsto> Some ''7200'', ''Title'' \<mapsto> Some ''Add widget'', ''State'' \<mapsto> Some ''MERGED'',
      ''Created At'' \<mapsto> Some ''2024-01-15'', ''Merged At'' \<mapsto> Some ''2024-01-16'',
      ''Closed At'' \<mapsto> Some ''2024-01-16'', ''Additions'' \<mapsto> Some ''150'',
      ''Deletions'' \<mapsto> Some ''25'', ''Net Lines'' \<mapsto> Some net, ''URL'' \<mapsto> Some u]"

section \<open>Scraper: the GitHub CLI analyzer (\<^verbatim>\<open>github_pr_scraper/cli_analyzer.py\<close>)\<close>

text \<open>
  The environment of the analyzer: \<open>gh\<close> maps a command line to the outcome of
  \<^verbatim>\<open>subprocess.run\<close>, which raises (a timeout, a missing binary) or completes with an
  exit code and an output; the output is represented by what \<^verbatim>\<open>json.loads\<close> makes of it,
  \<open>None\<close> when it raises. \<open>fromisoformat\<close> is \<^verbatim>\<open>datetime.fromisoformat\<close>, \<open>None\<close> when it
  raises \<^verbatim>\<open>ValueError\<close>.
\<close>

datatype gh_outcome = Raised | Exited int "json option"

text \<open>\<^verbatim>\<open>d.get(k, default)\<close> on a JSON object (its keys are distinct).\<close>

definition jget :: "(string \<times> json) list \<Rightarrow> string \<Rightarrow> json \<Rightarrow> json" where
  "jget kvs k dflt = (case map_of kvs k of None \<Rightarrow> dflt | Some v \<Rightarrow> v)"

text \<open>
  The validation of a \<^verbatim>\<open>str\<close> and of an \<^verbatim>\<open>int\<close> field by the model class: a JSON
  string and a JSON integer pass; a value of another type makes the constructor raise
  (the conversions that pydantic attempts between types are not modelled).
\<close>

definition as_str :: "json \<Rightarrow> string option" where
  "as_str j = (case j of JStr s \<Rightarrow> Some s | _ \<Rightarrow> None)"

definition as_int :: "json \<Rightarrow> int option" where
  "as_int j = (case j of JInt n \<Rightarrow> Some n | _ \<Rightarrow> None)"

text \<open>\<^verbatim>\<open>s.replace('Z', '+00:00')\<close> and \<^verbatim>\<open>s.lower()\<close> on ASCII text.\<close>

definition replace_Z :: "string \<Rightarrow> string" where
  "replace_Z s = concat (map (\<lambda>c. if c = CHR ''Z'' then ''+00:00'' else [c]) s)"

definition lower :: "string \<Rightarrow> string" where
  "lower s =
     map (\<lambda>c. if c \<in> set ''ABCDEFGHIJKLMNOPQRSTUVWXYZ''
               then char_of (of_char c + (32::nat)) else c) s"

text \<open>
  \<open>_calculate_time_metrics\<close>. \<^verbatim>\<open>merged_at or closed_at\<close> is the merge time when there
  is one. A difference of instants in microseconds is \<open>total_seconds() / 3600\<close> hours.
\<close>

definition hours :: "int \<Rightarrow> rat" where
  "hours microseconds = of_int microseconds / 1000000 / 3600"

definition calculate_time_metrics ::
  "datetime \<Rightarrow> datetime option \<Rightarrow> datetime option \<Rightarrow> py_error + TimeMetrics" where
  "calculate_time_metrics created merged_time closed_time =
     (let metrics = TimeMetrics0;
          end_time = (case merged_time of Some m \<Rightarrow> Some m | None \<Rightarrow> closed_time)
      in case end_time of
           None \<Rightarrow> Inr metrics
         | Some e \<Rightarrow>
             py_bind (dt_diff e created) (\<lambda>time_diff.
               let metrics = metrics\<lparr>time_open_hours := Some (hours time_diff)\<rparr>
               in case merged_time of
                    None \<Rightarrow> Inr metrics
                  | Some m \<Rightarrow>
                      py_bind (dt_diff m created) (\<lambda>d.
                        Inr (metrics\<lparr>time_to_merge_hours := Some (hours d)\<rparr>))))"

text \<open>
  The body of the loop of \<open>_convert_to_pr_data\<close> for one entry; \<open>None\<close> stands for any
  exception, which the \<^verbatim>\<open>except\<close> clause of the loop turns into skipping the entry.
  An optional time stamp is parsed when the entry holds a value for it that counts as
  true, which must then be a text.
\<close>

definition optional_time :: "(string \<Rightarrow> datetime option) \<Rightarrow> json \<Rightarrow> datetime option option" where
  "optional_time fromisoformat j =
     (if truthy j
      then (case j of
              JStr s \<Rightarrow> (case fromisoformat (replace_Z s) of None \<Rightarrow> None | Some t \<Rightarrow> Some (Some t))
            | _ \<Rightarrow> None)
      else Some None)"

fun label_names :: "json list \<Rightarrow> string list option" where
  "label_names [] = Some []"
| "label_names (JObj kvs # rest) =
     (case as_str (jget kvs ''name'' (JStr [])) of
        None \<Rightarrow> None
      | Some name \<Rightarrow> map_option (\<lambda>names. name # names) (label_names rest))"
| "label_names (_ # rest) = None"

definition convert_labels :: "json \<Rightarrow> string list option" where
  "convert_labels j =
     (if truthy j then (case j of JArr items \<Rightarrow> label_names items | _ \<Rightarrow> None) else Some [])"

definition convert_entry ::
  "(string \<Rightarrow> datetime option) \<Rightarrow> string \<Rightarrow> string option \<Rightarrow> json \<Rightarrow> GitHubPRData option" where
  "convert_entry fromisoformat username repo pr_json =
     (case pr_json of
        JObj kvs \<Rightarrow>
          Option.bind
            (if repo \<noteq> None \<and> repo \<noteq> Some [] then repo
             else (case jget kvs ''repository'' (JObj []) of
                     JObj r \<Rightarrow> as_str (jget r ''nameWithOwner'' (JStr ''unknown/unknown''))
                   | _ \<Rightarrow> None))
            (\<lambda>repository.
          Option.bind
            (case map_of kvs ''createdAt'' of
               Some (JStr s) \<Rightarrow> fromisoformat (replace_Z s)
             | _ \<Rightarrow> None)
            (\<lambda>created.
          Option.bind (optional_time fromisoformat (jget kvs ''mergedAt'' JNull)) (\<lambda>merged_time.
          Option.bind (optional_time fromisoformat (jget kvs ''closedAt'' JNull)) (\<lambda>closed_time.
          Option.bind (optional_time fromisoformat (jget kvs ''updatedAt'' JNull)) (\<lambda>updated_time.
          Option.bind (convert_labels (jget kvs ''labels'' JNull)) (\<lambda>label_list.
          Option.bind (as_str (jget kvs ''state'' (JStr ''open''))) (\<lambda>st.
          Option.bind (Option.bind (map_of kvs ''number'') as_int) (\<lambda>n.
          Option.bind (as_str (jget kvs ''title'' (JStr []))) (\<lambda>ttl.
          Option.bind (as_str (jget kvs ''body'' (JStr []))) (\<lambda>body.
          Option.bind (as_str (jget kvs ''url'' (JStr []))) (\<lambda>u.
          Option.bind (as_str (jget kvs ''headRefName'' (JStr []))) (\<lambda>head.
          Option.bind (as_str (jget kvs ''baseRefName'' (JStr []))) (\<lambda>base.
          Option.bind (as_int (jget kvs ''additions'' (JInt 0))) (\<lambda>adds.
          Option.bind (as_int (jget kvs ''deletions'' (JInt 0))) (\<lambda>dels.
            case calculate_time_metrics created merged_time closed_time of
              Inl e \<Rightarrow> None
            | Inr tm \<Rightarrow>
                Some \<lparr>g_repository = repository, g_pr_number = n, g_title = ttl,
                      g_description = body, g_url = u, g_author = username,
                      author_avatar_url = [], g_state = lower st, is_draft = False,
                      g_created_at = created, g_updated_at = updated_time, g_merged_at = merged_time,
                      g_closed_at = closed_time, g_source_branch = head, g_target_branch = base,
                      source_repository = [], g_additions = adds, g_deletions = dels,
                      commits_count = 0, g_labels = label_list, milestone = None,
                      linked_issues = [], review_metrics = ReviewMetrics0,
                      time_metrics = tm, file_analysis = FileAnalysis0,
                      engagement_metrics = EngagementMetrics0, is_security_fix = False,
                      is_breaking_change = False, deployment_info = [],
                      ci_status = []\<rparr>)))))))))))))))
      | _ \<Rightarrow> None)"

text \<open>
  \<open>_convert_to_pr_data\<close>: the \<^verbatim>\<open>for\<close> loop walks the elements of a JSON array, the
  keys of an object or the characters of a text, and raises \<^verbatim>\<open>TypeError\<close> on a
  document that cannot be iterated.
\<close>

definition iterate :: "json \<Rightarrow> py_error + json list" where
  "iterate j =
     (case j of
        JArr items \<Rightarrow> Inr items
      | JObj kvs \<Rightarrow> Inr (map (\<lambda>kv. JStr (fst kv)) kvs)
      | JStr s \<Rightarrow> Inr (map (\<lambda>c. JStr [c]) s)
      | _ \<Rightarrow> Inl TypeError)"

definition convert_to_pr_data ::
  "(string \<Rightarrow> datetime option) \<Rightarrow> json \<Rightarrow> string \<Rightarrow> string option
   \<Rightarrow> py_error + GitHubPRData list" where
  "convert_to_pr_data fromisoformat prs_data username repo =
     py_bind (iterate prs_data) (\<lambda>items.
       Inr (List.map_filter (convert_entry fromisoformat username repo) items))"

text \<open>
  \<open>_filter_prs_by_date\<close>. A bound that is given is compared with the creation time of
  every pull request; the comparison raises when one of the two is offset-aware and the
  other is offset-naive.
\<close>

fun filter_prs_by_date ::
  "GitHubPRData list \<Rightarrow> datetime option \<Rightarrow> datetime option \<Rightarrow> py_error + GitHubPRData list" where
  "filter_prs_by_date [] date_from date_to = Inr []"
| "filter_prs_by_date (pr # rest) date_from date_to =
     py_bind (case date_from of None \<Rightarrow> Inr False | Some d \<Rightarrow> dt_less (g_created_at pr) d)
       (\<lambda>too_early.
         if too_early then filter_prs_by_date rest date_from date_to
         else py_bind (case date_to of None \<Rightarrow> Inr False | Some d \<Rightarrow> dt_less d (g_created_at pr))
           (\<lambda>too_late.
             if too_late then filter_prs_by_date rest date_from date_to
             else py_bind (filter_prs_by_date rest date_from date_to) (\<lambda>kept. Inr (pr # kept))))"

text \<open>
  \<open>_get_prs_for_repo\<close>. The result is the list that the function returns together with
  the command lines it has run, in their order. Every exception inside the \<^verbatim>\<open>try\<close> block
  ends the function with the empty list.
\<close>

definition pr_list_cmd :: "string \<Rightarrow> string \<Rightarrow> string list" where
  "pr_list_cmd repo username =
     [''gh'', ''pr'', ''list'', ''--repo'', repo, ''--author'', username, ''--json'',
      ''number,title,body,createdAt,updatedAt,mergedAt,closedAt,additions,deletions,url,headRefName,baseRefName,labels,state'',
      ''--limit'', ''1000'']"

fun fetch_states ::
  "(string list \<Rightarrow> gh_outcome) \<Rightarrow> (string \<Rightarrow> datetime option) \<Rightarrow> string \<Rightarrow> string
   \<Rightarrow> datetime option \<Rightarrow> datetime option \<Rightarrow> string list list \<Rightarrow> string list
   \<Rightarrow> GitHubPRData list \<times> string list list" where
  "fetch_states gh fromisoformat repo username date_from date_to executed [] = ([], executed)"
| "fetch_states gh fromisoformat repo username date_from date_to executed (st # states) =
     (let state_cmd = pr_list_cmd repo username @ [''--state'', st];
          executed = executed @ [state_cmd]
      in case gh state_cmd of
           Raised \<Rightarrow> ([], executed)
         | Exited returncode out \<Rightarrow>
             if returncode \<noteq> 0
             then fetch_states gh fromisoformat repo username date_from date_to executed states
             else (case out of
                     None \<Rightarrow> ([], executed)
                   | Some prs_data \<Rightarrow>
                       (case convert_to_pr_data fromisoformat prs_data username (Some repo) of
                          Inl e \<Rightarrow> ([], executed)
                        | Inr repo_prs \<Rightarrow>
                            if date_from \<noteq> None \<or> date_to \<noteq> None
                            then (case filter_prs_by_date repo_prs date_from date_to of
                                    Inl e \<Rightarrow> ([], executed)
                                  | Inr filtered \<Rightarrow> (filtered, executed))
                            else (repo_prs, executed))))"

definition get_prs_for_repo ::
  "(string list \<Rightarrow> gh_outcome) \<Rightarrow> (string \<Rightarrow> datetime option) \<Rightarrow> string \<Rightarrow> string
   \<Rightarrow> datetime option \<Rightarrow> datetime option \<Rightarrow> bool \<Rightarrow> bool
   \<Rightarrow> GitHubPRData list \<times> string list list" where
  "get_prs_for_repo gh fromisoformat repo username date_from date_to include_closed include_merged =
     (let states = [];
          states = (if include_closed then states @ [''closed''] else states);
          states = (if include_merged then states @ [''merged''] else states);
          states = states @ [''open'']
      in fetch_states gh fromisoformat repo username date_from date_to [] states)"

section \<open>Well-formed inputs and test data of the scripts\<close>

text \<open>
  A row of the contribution CSV is well formed when it has the columns that the script
  reads by subscript, with a text in the URL cell, when no number cell is missing from a
  short row, and when its "Net Lines" cell, if it passes the digit test of the script,
  is a number with at most one minus sign, in front. \<open>url_parses\<close> says that
  \<open>extract_repo_from_url\<close> finds a repository in the URL cell.
\<close>

definition well_formed_number :: "cell option \<Rightarrow> bool" where
  "well_formed_number c = (c \<noteq> Some None)"

definition well_formed_net_lines :: "cell option \<Rightarrow> bool" where
  "well_formed_net_lines c =
     (case c of
        None \<Rightarrow> True
      | Some None \<Rightarrow> False
      | Some (Some s) \<Rightarrow>
          \<not> isdigit (filter (\<lambda>c. c \<noteq> CHR ''-'') s) \<or> isdigit s
          \<or> (s \<noteq> [] \<and> hd s = CHR ''-'' \<and> isdigit (tl s)))"

definition well_formed_row :: "csv_row \<Rightarrow> bool" where
  "well_formed_row row \<longleftrightarrow>
     (\<exists>u. row ''URL'' = Some (Some u)) \<and> row ''PR #'' \<noteq> None \<and> row ''Title'' \<noteq> None
     \<and> row ''State'' \<noteq> None \<and> row ''Created At'' \<noteq> None
     \<and> well_formed_number (row ''Additions'') \<and> well_formed_number (row ''Deletions'')
     \<and> well_formed_net_lines (row ''Net Lines'')"

definition url_parses :: "csv_row \<Rightarrow> bool" where
  "url_parses row =
     (case row ''URL'' of Some (Some u) \<Rightarrow> extract_repo_from_url u \<noteq> None | _ \<Rightarrow> False)"

text \<open>
  Two datetimes are of the same kind when both are offset-aware or both are
  offset-naive. \<open>in_range\<close> is the date filter as the spec words it: a pull request is
  kept when it was created within the bounds that are given.
\<close>

definition same_kind :: "datetime \<Rightarrow> datetime \<Rightarrow> bool" where
  "same_kind a b = (case (a, b) of (Naive _, Naive _) \<Rightarrow> True | (Aware _, Aware _) \<Rightarrow> True | _ \<Rightarrow> False)"

definition instant :: "datetime \<Rightarrow> int" where
  "instant t = (case t of Naive x \<Rightarrow> x | Aware x \<Rightarrow> x)"

definition in_range :: "datetime option \<Rightarrow> datetime option \<Rightarrow> GitHubPRData \<Rightarrow> bool" where
  "in_range date_from date_to pr \<longleftrightarrow>
     (case date_from of None \<Rightarrow> True | Some d \<Rightarrow> instant d \<le> instant (g_created_at pr))
     \<and> (case date_to of None \<Rightarrow> True | Some d \<Rightarrow> instant (g_created_at pr) \<le> instant d)"

text \<open>Test data: the document that \<^verbatim>\<open>gh pr list --state closed\<close> prints for one closed
  pull request, an environment in which that call succeeds and every other call fails,
  and a \<open>fromisoformat\<close> that knows the texts of the test data.\<close>

definition closed_pr_json :: json where
  "closed_pr_json =
     JObj [(''number'', JInt 7200), (''title'', JStr ''Add widget''), (''body'', JStr []),
           (''createdAt'', JStr ''2024-01-15T10:30:00Z''),
           (''updatedAt'', JStr ''2024-01-16T10:30:00Z''), (''mergedAt'', JNull),
           (''closedAt'', JStr ''2024-01-16T10:30:00Z''), (''additions'', JInt 150),
           (''deletions'', JInt 25), (''url'', JStr ''https://github.com/acme/widgets/pull/7200''),
           (''headRefName'', JStr ''feature''), (''baseRefName'', JStr ''main''),
           (''labels'', JArr []), (''state'', JStr ''CLOSED'')]"

definition gh_closed_succeeds :: "string list \<Rightarrow> gh_outcome" where
  "gh_closed_succeeds cmd =
     (if cmd = pr_list_cmd ''acme/widgets'' ''u'' @ [''--state'', ''closed'']
      then Exited 0 (Some (JArr [closed_pr_json])) else Exited 1 None)"

definition utc_fromisoformat :: "string \<Rightarrow> datetime option" where
  "utc_fromisoformat s =
     (if s = ''2024-01-15T10:30:00+00:00'' then Some (Aware 1705314600000000)
      else if s = ''2024-01-16T10:30:00+00:00'' then Some (Aware 1705401000000000)
      else if s = ''2024-01-01'' then Some (Naive 1704067200000000)
      else None)"

section \<open>PAT tool: the counts of an analysis result\<close>

lemma sum_ones: "sum_list (map (\<lambda>x. (1::int)) xs) = int (length xs)"
  by (induction xs) simp_all

lemma length_filter_disjoint:
  assumes "\<And>x. x \<in> set xs \<Longrightarrow> \<not> (P x \<and> Q x)"
  shows "length (filter P xs) + length (filter Q xs) \<le> length xs"
  using assms
proof (induction xs)
  case Nil
  then show ?case by simp
next
  case (Cons x xs)
  then have "length (filter P xs) + length (filter Q xs) \<le> length xs" by simp
  moreover have "\<not> (P x \<and> Q x)" using Cons.prems by simp
  ultimately show ?case by auto
qed

text \<open>
  C7. \<open>merged_prs\<close> counts exactly the pull requests whose merged flag is set,
  \<open>closed_prs\<close> exactly those with raw state "closed" whose merged flag is not set; no pull
  request passes both conditions, and the two counts together never exceed the number of
  pull requests.
\<close>

theorem merged_closed_exclusive:
  "merged_prs r = int (length (filter (\<lambda>pr. merged pr) (pull_requests r)))
   \<and> closed_prs r
       = int (length (filter (\<lambda>pr. state pr = ''closed'' \<and> \<not> merged pr) (pull_requests r)))
   \<and> filter (\<lambda>pr. merged pr \<and> (state pr = ''closed'' \<and> \<not> merged pr)) (pull_requests r) = []
   \<and> merged_prs r + closed_prs r \<le> int (length (pull_requests r))"
proof -
  let ?prs = "pull_requests r"
  have m: "merged_prs r = int (length (filter (\<lambda>pr. merged pr) ?prs))"
    by (simp add: merged_prs_def sum_ones)
  have c: "closed_prs r
      = int (length (filter (\<lambda>pr. state pr = ''closed'' \<and> \<not> merged pr) ?prs))"
    by (simp add: closed_prs_def sum_ones)
  have e: "filter (\<lambda>pr. merged pr \<and> (state pr = ''closed'' \<and> \<not> merged pr)) ?prs = []"
    by (induction ?prs) auto
  have "length (filter (\<lambda>pr. merged pr) ?prs)
      + length (filter (\<lambda>pr. state pr = ''closed'' \<and> \<not> merged pr) ?prs) \<le> length ?prs"
    by (rule length_filter_disjoint) simp
  then have s: "merged_prs r + closed_prs r \<le> int (length ?prs)"
    using m c by linarith
  from m c e s show ?thesis by simp
qed

lemma counts_sum_list:
  "length (filter (\<lambda>pr. merged pr) ps) + length (filter (\<lambda>pr. state pr = ''open'') ps)
     + length (filter (\<lambda>pr. state pr = ''closed'' \<and> \<not> merged pr) ps)
   = sum_list (map times_counted ps)"
  by (induction ps) (auto simp: times_counted_def)

lemma times_counted_split:
  "sum_list (map times_counted ps)
   = length (filter (\<lambda>pr. merged pr \<or> state pr = ''open'' \<or> state pr = ''closed'') ps)
     + length (filter (\<lambda>pr. merged pr \<and> state pr = ''open'') ps)"
  by (induction ps) (auto simp: times_counted_def)

lemma counts_total:
  "merged_prs r + open_prs r + closed_prs r = int (sum_list (map times_counted (pull_requests r)))"
proof -
  have "merged_prs r + open_prs r + closed_prs r
      = int (length (filter (\<lambda>pr. merged pr) (pull_requests r))
          + length (filter (\<lambda>pr. state pr = ''open'') (pull_requests r))
          + length (filter (\<lambda>pr. state pr = ''closed'' \<and> \<not> merged pr) (pull_requests r)))"
    by (simp add: merged_prs_def open_prs_def closed_prs_def sum_ones)
  then show ?thesis by (simp only: counts_sum_list)
qed

lemma counted_once_iff:
  "times_counted pr = 1
   \<longleftrightarrow> (if merged pr then state pr \<noteq> ''open'' else state pr = ''open'' \<or> state pr = ''closed'')"
  by (auto simp: times_counted_def)

text \<open>
  C10 (as stated). A single pull request with raw state "merged" and the merged flag set
  is counted once, by \<open>merged_prs\<close> alone: the three counts partition the list and add up
  to its length, yet the merged pull request does not have raw state "closed".
\<close>

theorem partition_only_when_closed_counterexample:
  "counts_partition (a_result [a_pr ''merged'' True ''x''] [])
   \<and> merged_prs (a_result [a_pr ''merged'' True ''x''] [])
       + open_prs (a_result [a_pr ''merged'' True ''x''] [])
       + closed_prs (a_result [a_pr ''merged'' True ''x''] [])
     = int (length (pull_requests (a_result [a_pr ''merged'' True ''x''] [])))
   \<and> \<not> (\<forall>pr \<in> set (pull_requests (a_result [a_pr ''merged'' True ''x''] [])).
          merged pr \<longrightarrow> state pr = ''closed'')"
  by (simp add: counts_partition_def times_counted_def merged_prs_def open_prs_def
      closed_prs_def a_result_def a_pr_def)

text \<open>
  C10 (amended). \<open>open_prs\<close> counts every pull request whose raw state is "open",
  whatever its merged flag, so an open pull request with the merged flag set is counted
  by \<open>open_prs\<close> and by \<open>merged_prs\<close>: the three counts add up to the number of pull
  requests that are merged, open or closed plus the number of those that are open and
  merged, which exceeds the length of the list for a single open, merged pull request.
  The counts partition the list exactly when every merged pull request has a raw state
  other than "open" and every other pull request has raw state "open" or "closed"; when
  every raw state is "open" or "closed", that is exactly when every merged pull request
  has raw state "closed".
\<close>

theorem open_prs_overlap:
  "open_prs r = int (length (filter (\<lambda>pr. state pr = ''open'') (pull_requests r)))
   \<and> merged_prs r + open_prs r + closed_prs r
     = int (length (filter (\<lambda>pr. merged pr \<or> state pr = ''open'' \<or> state pr = ''closed'')
              (pull_requests r)))
       + int (length (filter (\<lambda>pr. merged pr \<and> state pr = ''open'') (pull_requests r)))
   \<and> merged_prs (a_result [a_pr ''open'' True ''x''] [])
       + open_prs (a_result [a_pr ''open'' True ''x''] [])
       + closed_prs (a_result [a_pr ''open'' True ''x''] [])
     > int (length (pull_requests (a_result [a_pr ''open'' True ''x''] [])))
   \<and> (counts_partition r \<longleftrightarrow>
        (\<forall>pr \<in> set (pull_requests r).
           if merged pr then state pr \<noteq> ''open''
           else state pr = ''open'' \<or> state pr = ''closed''))
   \<and> ((\<forall>pr \<in> set (pull_requests r). state pr = ''open'' \<or> state pr = ''closed'') \<longrightarrow>
        (counts_partition r \<longleftrightarrow>
          (\<forall>pr \<in> set (pull_requests r). merged pr \<longrightarrow> state pr = ''closed'')))"
proof -
  have a: "open_prs r = int (length (filter (\<lambda>pr. state pr = ''open'') (pull_requests r)))"
    by (simp add: open_prs_def sum_ones)
  have b: "merged_prs r + open_prs r + closed_prs r
     = int (length (filter (\<lambda>pr. merged pr \<or> state pr = ''open'' \<or> state pr = ''closed'')
              (pull_requests r)))
       + int (length (filter (\<lambda>pr. merged pr \<and> state pr = ''open'') (pull_requests r)))"
    by (simp only: counts_total times_counted_split of_nat_add)
  have c: "merged_prs (a_result [a_pr ''open'' True ''x''] [])
       + open_prs (a_result [a_pr ''open'' True ''x''] [])
       + closed_prs (a_result [a_pr ''open'' True ''x''] [])
     > int (length (pull_requests (a_result [a_pr ''open'' True ''x''] [])))"
    by (simp add: merged_prs_def open_prs_def closed_prs_def a_result_def a_pr_def)
  have d: "counts_partition r \<longleftrightarrow>
        (\<forall>pr \<in> set (pull_requests r).
           if merged pr then state pr \<noteq> ''open''
           else state pr = ''open'' \<or> state pr = ''closed'')"
    by (simp only: counts_partition_def list_all_iff counted_once_iff)
  have e: "counts_partition r \<longleftrightarrow>
          (\<forall>pr \<in> set (pull_requests r). merged pr \<longrightarrow> state pr = ''closed'')"
    if "\<forall>pr \<in> set (pull_requests r). state pr = ''open'' \<or> state pr = ''closed''"
    unfolding d using that by (auto split: if_splits)
  from a b c d e show ?thesis by blast
qed

theorem open_prs_overlap_witness:
  "open_prs (a_result [a_pr ''open'' True ''x'', a_pr ''closed'' False ''y''] []) = 1
   \<and> merged_prs (a_result [a_pr ''open'' True ''x'', a_pr ''closed'' False ''y''] [])
       + open_prs (a_result [a_pr ''open'' True ''x'', a_pr ''closed'' False ''y''] [])
       + closed_prs (a_result [a_pr ''open'' True ''x'', a_pr ''closed'' False ''y''] []) = 3
   \<and> list_all (\<lambda>pr. state pr = ''open'' \<or> state pr = ''closed'')
        (pull_requests (a_result [a_pr ''open'' True ''x'', a_pr ''closed'' False ''y''] []))
   \<and> \<not> counts_partition (a_result [a_pr ''open'' True ''x'', a_pr ''closed'' False ''y''] [])"
  using open_prs_overlap [of "a_result [a_pr ''open'' True ''x'', a_pr ''closed'' False ''y''] []"]
  by (simp add: a_result_def a_pr_def)

section \<open>Analyzer: the contribution streak\<close>

lemma commit_dates_consecutive:
  "map (\<lambda>row. date_of (k_authored_date row))
     (create_commit_dataframe (a_result ps (map (\<lambda>i. a_commit repo (today - int i)) [0..<k])))
   = map (\<lambda>i. today - int i) [0..<k]"
  by (simp add: create_commit_dataframe_def a_result_def a_commit_def date_of_def comp_def)

lemma sorted_rev_consecutive: "sorted (rev (map (\<lambda>i. (today::int) - int i) [0..<k]))"
  by (induction k) (auto simp: sorted_append)

lemma distinct_consecutive: "distinct (map (\<lambda>i. (today::int) - int i) [0..<k])"
  by (simp add: distinct_map inj_on_def)

lemma sort_consecutive:
  "rev (sort (remdups (map (\<lambda>i. (today::int) - int i) [0..<k])))
   = map (\<lambda>i. today - int i) [0..<k]"
proof -
  let ?xs = "map (\<lambda>i. (today::int) - int i) [0..<k]"
  have d: "distinct ?xs" by (rule distinct_consecutive)
  have "sort ?xs = rev ?xs"
  proof (rule sorted_distinct_set_unique)
    show "sorted (sort ?xs)" by simp
    show "distinct (sort ?xs)" using d by (simp del: distinct_map)
    show "sorted (rev ?xs)" by (rule sorted_rev_consecutive)
    show "distinct (rev ?xs)" using d by (simp del: distinct_map)
    show "set (sort ?xs) = set (rev ?xs)" by simp
  qed
  then show ?thesis using d by (simp add: distinct_remdups_id del: distinct_map)
qed

text \<open>
  The loop compares \<open>current_date - commit_date\<close> with the streak, and it moves
  \<open>current_date\<close> to the commit's day as well: on the third consecutive day the
  difference is one day while the streak is two, and the loop stops.
\<close>

lemma streak_loop_consecutive:
  "streak_loop today 0 (map (\<lambda>i. today - int i) [0..<k]) = min (int k) 2"
proof -
  consider "k = 0" | "k = 1" | "k = 2" | "3 \<le> k" by linarith
  then show ?thesis
  proof cases
    case 1
    then show ?thesis by simp
  next
    case 2
    then show ?thesis by simp
  next
    case 3
    then have "[0..<k] = [0, Suc 0]"
      by (simp add: upt_conv_Cons numeral_2_eq_2)
    then show ?thesis using 3 by simp
  next
    case 4
    then have "[0..<k] = 0 # Suc 0 # Suc (Suc 0) # [3..<k]"
      by (simp add: upt_conv_Cons numeral_3_eq_3)
    then show ?thesis using 4 by simp
  qed
qed

text \<open>
  C1. For commits authored on each of the \<open>k\<close> most recent consecutive calendar days
  ending today (one commit on each of the days \<open>today\<close>, \<open>today - 1\<close>, ...,
  \<open>today - (k - 1)\<close>, and none before), \<open>calculate_contribution_metrics\<close> returns the
  streak \<open>min k 2\<close>: it is \<open>k\<close> for \<open>k \<le> 2\<close> only, and 2 for every longer run of days,
  whatever the pull requests, the day and the iteration order of sets are.
\<close>

theorem contribution_streak_consecutive_days:
  "contribution_streak (calculate_contribution_metrics set_order today
      (a_result ps (map (\<lambda>i. a_commit repo (today - int i)) [0..<k])))
   = min (int k) 2"
proof (cases "k = 0")
  case True
  then show ?thesis
    by (simp add: calculate_contribution_metrics_def Let_def calculate_contribution_streak_def
        create_commit_dataframe_def a_result_def)
next
  case False
  let ?r = "a_result ps (map (\<lambda>i. a_commit repo (today - int i)) [0..<k])"
  have ne: "create_commit_dataframe ?r \<noteq> []"
    using False by (simp add: create_commit_dataframe_def a_result_def)
  have "calculate_contribution_streak today (create_commit_dataframe ?r) = min (int k) 2"
    using False ne
    by (simp add: calculate_contribution_streak_def Let_def commit_dates_consecutive
        sort_consecutive streak_loop_consecutive)
  then show ?thesis using ne
    by (simp add: calculate_contribution_metrics_def Let_def)
qed

text \<open>Three consecutive days ending today give a streak of two.\<close>

lemma contribution_streak_three_days:
  "contribution_streak (calculate_contribution_metrics remdups 19737
      (a_result [] [a_commit ''r'' 19737, a_commit ''r'' 19736, a_commit ''r'' 19735])) = 2"
  by (simp add: calculate_contribution_metrics_def Let_def calculate_contribution_streak_def
      create_commit_dataframe_def a_result_def a_commit_def date_of_def)

lemma descending_head:
  assumes "sorted_wrt (\<lambda>x y. y < x) xs" "(m::int) \<in> set xs" "\<forall>x \<in> set xs. x \<le> m"
  shows "\<exists>ys. xs = m # ys \<and> sorted_wrt (\<lambda>x y. y < x) ys \<and> (\<forall>y \<in> set ys. y < m)"
proof (cases xs)
  case Nil
  then show ?thesis using assms(2) by simp
next
  case (Cons a ys)
  then have s: "\<forall>y \<in> set ys. y < a" "sorted_wrt (\<lambda>x y. y < x) ys"
    using assms(1) by simp_all
  have "a = m"
  proof (rule ccontr)
    assume "a \<noteq> m"
    then have "m \<in> set ys" using assms(2) Cons by simp
    then have "m < a" using s(1) by simp
    moreover have "a \<le> m" using assms(3) Cons by simp
    ultimately show False by simp
  qed
  then show ?thesis using Cons s by simp
qed

lemma descending_dates:
  "sorted_wrt (\<lambda>x y. y < x) (rev (sort (remdups (ds::int list))))"
proof -
  have "sorted (sort (remdups ds))" "distinct (sort (remdups ds))" by simp_all
  then have "sorted_wrt (<) (sort (remdups ds))"
    by (simp add: strict_sorted_iff del: distinct_sort)
  then show ?thesis by (simp add: sorted_wrt_rev)
qed

text \<open>
  In general: whenever there are commits today, yesterday and the day before, and none
  dated after today, the streak is two, whatever else the analysis result holds.
\<close>

lemma contribution_streak_three_recent_days:
  assumes "today \<in> commit_days r" "today - 1 \<in> commit_days r" "today - 2 \<in> commit_days r"
    and "\<forall>d \<in> commit_days r. d \<le> today"
  shows "contribution_streak (calculate_contribution_metrics set_order today r) = 2"
proof -
  let ?ds = "map (\<lambda>row. date_of (k_authored_date row)) (create_commit_dataframe r)"
  let ?xs = "rev (sort (remdups ?ds))"
  have ds: "set ?ds = commit_days r"
    by (simp add: commit_days_def create_commit_dataframe_def comp_def)
  then have sx: "set ?xs = commit_days r" by simp
  have ne: "create_commit_dataframe r \<noteq> []"
    using assms(1) ds by auto
  obtain ys where ys: "?xs = today # ys" "sorted_wrt (\<lambda>x y. y < x) ys" "\<forall>y \<in> set ys. y < today"
    using descending_head [OF descending_dates, of today ?ds] assms(1,4) sx by blast
  have sy: "commit_days r = insert today (set ys)"
    using sx by (simp only: ys(1) list.set)
  have "today - 1 \<in> set ys" using assms(2) unfolding sy by simp
  moreover have "\<forall>y \<in> set ys. y \<le> today - 1" using ys(3) by auto
  ultimately obtain zs where zs: "ys = (today - 1) # zs" "sorted_wrt (\<lambda>x y. y < x) zs"
    "\<forall>z \<in> set zs. z < today - 1"
    using descending_head [OF ys(2)] by blast
  have "today - 2 \<in> set zs" using assms(3) unfolding sy zs(1) by simp
  moreover have "\<forall>z \<in> set zs. z \<le> today - 2" using zs(3) by auto
  ultimately obtain ws where ws: "zs = (today - 2) # ws"
    using descending_head [OF zs(2)] by blast
  have "streak_loop today 0 ?xs = 2"
    by (simp add: ys(1) zs(1) ws)
  then have "calculate_contribution_streak today (create_commit_dataframe r) = 2"
    using ne ys(1) by (simp add: calculate_contribution_streak_def Let_def)
  then show ?thesis using ne
    by (simp add: calculate_contribution_metrics_def Let_def)
qed

text \<open>
  The loop can count too much as well: commits today, yesterday and then three and six
  days ago (gaps of two and three days) give a streak of four.
\<close>

lemma contribution_streak_with_gaps:
  "contribution_streak (calculate_contribution_metrics remdups 19737
      (a_result [] [a_commit ''r'' 19737, a_commit ''r'' 19736, a_commit ''r'' 19734,
                    a_commit ''r'' 19731])) = 4"
  by (simp add: calculate_contribution_metrics_def Let_def calculate_contribution_streak_def
      create_commit_dataframe_def a_result_def a_commit_def date_of_def)

section \<open>Analyzer: the most active repository\<close>

lemma distinct_pair:
  assumes "distinct xs" "set xs = {a, b}" "a \<noteq> b"
  shows "xs = [a, b] \<or> xs = [b, a]"
proof -
  have "length xs = 2"
    using assms distinct_card [of xs] by simp
  then obtain x y where xs: "xs = [x, y]"
    by (cases xs; cases "tl xs") auto
  with assms show ?thesis by auto
qed

lemma distinct_single:
  assumes "distinct xs" "set xs = {a}"
  shows "xs = [a]"
proof -
  have "length xs = 1"
    using assms distinct_card [of xs] by simp
  then obtain x where "xs = [x]"
    by (cases xs) auto
  with assms show ?thesis by auto
qed

lemma most_active_AB:
  "(if Counter ([''A'', ''B''] @ [''B'']) \<noteq> []
    then fst (hd (most_common1 (Counter ([''A'', ''B''] @ [''B''])))) else []) = ''B''"
  by (simp add: Counter_def most_common1_def)

lemma most_active_BA:
  "(if Counter ([''B'', ''A''] @ [''B'']) \<noteq> []
    then fst (hd (most_common1 (Counter ([''B'', ''A''] @ [''B''])))) else []) = ''B''"
  by (simp add: Counter_def most_common1_def)

text \<open>
  C2. The repository columns of the two data frames are turned into sets before they
  are counted, so a repository is counted once for the pull requests and once for the
  commits, however many rows it has. With three pull requests in repository A, and one
  pull request and one commit in repository B, A has the highest combined row count (3
  against 2), and \<open>most_active_repository\<close> is B, in whatever order the sets are iterated.
\<close>

theorem most_active_repository_counts_sets:
  assumes "\<And>xs. distinct (set_order xs) \<and> set (set_order xs) = set xs"
  shows "combined_row_count skewed_result ''A'' = 3
     \<and> combined_row_count skewed_result ''B'' = 2
     \<and> most_active_repository (calculate_contribution_metrics set_order today skewed_result)
         = ''B''"
proof -
  have p: "map p_repository (create_pr_dataframe skewed_result) = [''A'', ''A'', ''A'', ''B'']"
    by (simp add: create_pr_dataframe_def skewed_result_def a_result_def a_pr_def)
  have k: "map k_repository (create_commit_dataframe skewed_result) = [''B'']"
    by (simp add: create_commit_dataframe_def skewed_result_def a_result_def a_commit_def)
  have "set_order [''A'', ''A'', ''A'', ''B''] = [''A'', ''B'']
      \<or> set_order [''A'', ''A'', ''A'', ''B''] = [''B'', ''A'']"
    by (rule distinct_pair) (simp_all add: assms)
  moreover have "set_order [''B''] = [''B'']"
    by (rule distinct_single) (simp_all add: assms)
  moreover have "create_pr_dataframe skewed_result \<noteq> []"
    "create_commit_dataframe skewed_result \<noteq> []"
    by (simp_all add: create_pr_dataframe_def create_commit_dataframe_def skewed_result_def
        a_result_def)
  ultimately have "most_active_repository
      (calculate_contribution_metrics set_order today skewed_result) = ''B''"
    using most_active_AB most_active_BA
    by (auto simp add: calculate_contribution_metrics_def Let_def p k simp del: append.simps)
  moreover have "combined_row_count skewed_result ''A'' = 3"
    "combined_row_count skewed_result ''B'' = 2"
    by (simp_all add: combined_row_count_def skewed_result_def a_result_def a_pr_def
        a_commit_def)
  ultimately show ?thesis by simp
qed

theorem most_active_repository_counts_sets_witness:
  "most_active_repository (calculate_contribution_metrics remdups 0 skewed_result) = ''B''
   \<and> combined_row_count skewed_result ''A'' = 3
   \<and> combined_row_count skewed_result ''B'' = 2"
  using most_active_repository_counts_sets [of remdups 0] by simp

section \<open>Analyzer: lines and files\<close>






section \<open>Scraper: complexity score and success rate\<close>











text \<open>
  C9. \<open>success_rate\<close> never raises: it is 0 when \<open>total_processed\<close> is 0, where the
  division is not reached, and \<open>successful_scrapes / total_processed \<times> 100\<close> otherwise; 3
  successes out of 4 give 75.
\<close>

theorem success_rate_guarded:
  "success_rate r
     = Inr (if total_processed r = 0 then 0
            else of_int (successful_scrapes r) / of_int (total_processed r) * 100)
   \<and> success_rate (a_scraping_result 0 0) = Inr 0
   \<and> success_rate (a_scraping_result 4 3) = Inr 75"
  by (simp add: success_rate_def py_truediv_def a_scraping_result_def)

section \<open>Enhancement script: the repository of a URL\<close>

lemma re_match_lits:
  "re_match (map Lit p @ items) s
   = (if take (length p) s = p then re_match items (drop (length p) s) else None)"
proof (induction p arbitrary: s)
  case Nil
  then show ?case by simp
next
  case (Cons c p)
  then show ?case by (cases s) auto
qed

lemma first_match_top:
  assumes "\<And>k. 0 < k \<Longrightarrow> k < n \<Longrightarrow> f k = None"
  shows "first_match f n = (if n = 0 then None else f n)"
  using assms
proof (induction n)
  case 0
  then show ?case by simp
next
  case (Suc n)
  show ?case
  proof (cases "f (Suc n)")
    case None
    have "first_match f n = (if n = 0 then None else f n)"
      using Suc by simp
    moreover have "n \<noteq> 0 \<Longrightarrow> f n = None" using Suc.prems by simp
    ultimately have "first_match f n = None" by auto
    then show ?thesis using None by simp
  next
    case (Some r)
    then show ?thesis by simp
  qed
qed

lemma drop_in_run:
  assumes "k < length (takeWhile P s)"
  shows "\<exists>x xs. drop k s = x # xs \<and> P x"
proof -
  have "k < length s" using assms length_takeWhile_le [of P s] by linarith
  then have "drop k s = s ! k # drop (Suc k) s" by (simp add: Cons_nth_drop_Suc)
  moreover have "P (s ! k)"
    using assms by (metis nth_mem set_takeWhileD takeWhile_nth)
  ultimately show ?thesis by blast
qed

lemma re_match_group_slash:
  "re_match (GroupPlus NotSlash # Lit CHR ''/'' # items) s
   = (if takeWhile (\<lambda>c. c \<noteq> CHR ''/'') s = [] \<or> dropWhile (\<lambda>c. c \<noteq> CHR ''/'') s = [] then None
      else map_option (\<lambda>groups. takeWhile (\<lambda>c. c \<noteq> CHR ''/'') s # groups)
             (re_match items (tl (dropWhile (\<lambda>c. c \<noteq> CHR ''/'') s))))"
proof -
  let ?P = "\<lambda>c. c \<noteq> CHR ''/''"
  let ?n = "length (takeWhile ?P s)"
  let ?f = "\<lambda>n. map_option (\<lambda>groups. take n s # groups)
                  (re_match (Lit CHR ''/'' # items) (drop n s))"
  have inc: "in_class NotSlash = ?P" by (rule ext) simp
  have low: "?f k = None" if k0: "0 < k" and kn: "k < ?n" for k
  proof -
    obtain x xs where "drop k s = x # xs" "?P x"
      using drop_in_run [OF kn] by blast
    then show ?thesis by simp
  qed
  have fm: "first_match ?f ?n = (if ?n = 0 then None else ?f ?n)"
    by (rule first_match_top) (rule low)
  have tk: "take ?n s = takeWhile ?P s" by (rule takeWhile_eq_take [symmetric])
  have dr: "drop ?n s = dropWhile ?P s" by (rule dropWhile_eq_drop [symmetric])
  have top: "?f ?n = (if dropWhile ?P s = [] then None
       else map_option (\<lambda>groups. takeWhile ?P s # groups) (re_match items (tl (dropWhile ?P s))))"
  proof (cases "dropWhile ?P s")
    case Nil
    then show ?thesis by (simp add: dr del: dropWhile_eq_Nil_conv)
  next
    case (Cons x xs)
    then have "x = CHR ''/''" using hd_dropWhile [of ?P s] by fastforce
    then show ?thesis using Cons by (simp add: dr tk)
  qed
  have "re_match (GroupPlus NotSlash # Lit CHR ''/'' # items) s = first_match ?f ?n"
    by (simp only: re_match.simps inc)
  also have "\<dots> = (if ?n = 0 then None else ?f ?n)" by (rule fm)
  also have "\<dots> = (if takeWhile ?P s = [] \<or> dropWhile ?P s = [] then None
      else map_option (\<lambda>groups. takeWhile ?P s # groups)
             (re_match items (tl (dropWhile ?P s))))"
  proof (cases "takeWhile ?P s = []")
    case True
    then show ?thesis by (simp only: list.size if_True simp_thms)
  next
    case False
    then have "?n \<noteq> 0" by (simp only: length_0_conv not_False_eq_True)
    then show ?thesis using False by (simp only: top if_False simp_thms)
  qed
  finally show ?thesis .
qed

lemma re_match_digits:
  "re_match [Plus Digit] s = (if s \<noteq> [] \<and> in_class Digit (hd s) then Some [] else None)"
proof (cases s)
  case Nil
  then show ?thesis by simp
next
  case (Cons x xs)
  show ?thesis
  proof (cases "in_class Digit x")
    case True
    then obtain m where "length (takeWhile (in_class Digit) s) = Suc m"
      using Cons by (simp del: in_class.simps)
    then show ?thesis using True Cons by (simp del: in_class.simps)
  next
    case False
    then show ?thesis using Cons by (simp del: in_class.simps)
  qed
qed


lemma pattern_split:
  "pr_url_pattern
   = map Lit ''https://github.com/''
     @ (GroupPlus NotSlash # Lit CHR ''/'' # GroupPlus NotSlash # Lit CHR ''/''
        # (map Lit ''pull/'' @ [Plus Digit]))"
  by (simp add: pr_url_pattern_def)

lemma if_nest: "(if A then (if B then x else y) else y) = (if A \<and> B then x else y)"
  by simp

lemma if_map_option:
  "(if A then None else map_option f (if B then Some z else None))
   = (if \<not> A \<and> B then Some (f z) else None)"
  by simp

lemma re_match_pattern:
  fixes url :: string
  defines "P \<equiv> \<lambda>c. c \<noteq> CHR ''/''"
  defines "r1 \<equiv> drop 19 url"
  defines "r3 \<equiv> tl (dropWhile P r1)"
  defines "r5 \<equiv> tl (dropWhile P r3)"
  shows "re_match pr_url_pattern url
   = (if take 19 url = ''https://github.com/''
         \<and> (takeWhile P r1 \<noteq> [] \<and> dropWhile P r1 \<noteq> [])
         \<and> (takeWhile P r3 \<noteq> [] \<and> dropWhile P r3 \<noteq> [])
         \<and> take 5 r5 = ''pull/'' \<and> drop 5 r5 \<noteq> [] \<and> in_class Digit (hd (drop 5 r5))
      then Some [takeWhile P r1, takeWhile P r3] else None)"
proof -
  have len5: "length ''pull/'' = 5" and len19: "length ''https://github.com/'' = 19"
    by simp_all
  have t: "re_match (map Lit ''pull/'' @ [Plus Digit]) r
      = (if take 5 r = ''pull/'' \<and> drop 5 r \<noteq> [] \<and> in_class Digit (hd (drop 5 r))
         then Some [] else None)" for r
    by (simp only: re_match_lits re_match_digits len5 if_nest)
  have g2: "re_match (GroupPlus NotSlash # Lit CHR ''/'' # (map Lit ''pull/'' @ [Plus Digit])) r
      = (if (takeWhile P r \<noteq> [] \<and> dropWhile P r \<noteq> [])
            \<and> take 5 (tl (dropWhile P r)) = ''pull/'' \<and> drop 5 (tl (dropWhile P r)) \<noteq> []
            \<and> in_class Digit (hd (drop 5 (tl (dropWhile P r))))
         then Some [takeWhile P r] else None)" for r
    unfolding P_def by (simp only: re_match_group_slash t if_map_option de_Morgan_disj)
  have g1: "re_match (GroupPlus NotSlash # Lit CHR ''/'' # GroupPlus NotSlash # Lit CHR ''/''
        # (map Lit ''pull/'' @ [Plus Digit])) r
      = (if (takeWhile P r \<noteq> [] \<and> dropWhile P r \<noteq> [])
            \<and> (takeWhile P (tl (dropWhile P r)) \<noteq> [] \<and> dropWhile P (tl (dropWhile P r)) \<noteq> [])
            \<and> take 5 (tl (dropWhile P (tl (dropWhile P r)))) = ''pull/''
            \<and> drop 5 (tl (dropWhile P (tl (dropWhile P r)))) \<noteq> []
            \<and> in_class Digit (hd (drop 5 (tl (dropWhile P (tl (dropWhile P r))))))
         then Some [takeWhile P r, takeWhile P (tl (dropWhile P r))] else None)" for r
    by (simp only: re_match_group_slash [where items = "GroupPlus NotSlash # Lit CHR ''/'' # (map Lit ''pull/'' @ [Plus Digit])"]
          g2 [unfolded P_def] P_def if_map_option de_Morgan_disj)
  have "re_match pr_url_pattern url
      = (if take 19 url = ''https://github.com/''
         then re_match (GroupPlus NotSlash # Lit CHR ''/'' # GroupPlus NotSlash # Lit CHR ''/''
                # (map Lit ''pull/'' @ [Plus Digit])) r1
         else None)"
    by (simp only: pattern_split re_match_lits r1_def len19)
  then show ?thesis
    by (simp only: g1 r3_def r5_def if_nest)
qed


lemma split_at_slash:
  assumes "CHR ''/'' \<notin> set xs"
  shows "takeWhile (\<lambda>c. c \<noteq> CHR ''/'') (xs @ CHR ''/'' # ys) = xs"
    and "dropWhile (\<lambda>c. c \<noteq> CHR ''/'') (xs @ CHR ''/'' # ys) = CHR ''/'' # ys"
  using assms by (induction xs) auto

lemma dropWhile_slash:
  assumes "dropWhile (\<lambda>c. c \<noteq> CHR ''/'') r \<noteq> []"
  shows "dropWhile (\<lambda>c. c \<noteq> CHR ''/'') r = CHR ''/'' # tl (dropWhile (\<lambda>c. c \<noteq> CHR ''/'') r)"
proof -
  have "hd (dropWhile (\<lambda>c. c \<noteq> CHR ''/'') r) = CHR ''/''"
    using assms hd_dropWhile [of "\<lambda>c. c \<noteq> CHR ''/''" r] by blast
  then show ?thesis using assms by (metis list.collapse)
qed

lemma shape_matches:
  assumes "has_shape url owner repo digits rest"
  shows "re_match pr_url_pattern url = Some [owner, repo]"
proof -
  let ?P = "\<lambda>c. c \<noteq> CHR ''/''"
  let ?t3 = "repo @ CHR ''/'' # (''pull/'' @ digits @ rest)"
  from assms have url: "url = ''https://github.com/'' @ (owner @ CHR ''/'' # ?t3)"
    and o: "owner \<noteq> []" "CHR ''/'' \<notin> set owner" and r: "repo \<noteq> []" "CHR ''/'' \<notin> set repo"
    and d: "digits \<noteq> []" "list_all (in_class Digit) digits"
    by (simp_all add: has_shape_def)
  have a: "take 19 url = ''https://github.com/''" and r1: "drop 19 url = owner @ CHR ''/'' # ?t3"
    by (simp_all add: url)
  have tw1: "takeWhile ?P (drop 19 url) = owner"
    and dw1: "dropWhile ?P (drop 19 url) = CHR ''/'' # ?t3"
    unfolding r1 using o(2) by (rule split_at_slash)+
  have tw3: "takeWhile ?P ?t3 = repo"
    and dw3: "dropWhile ?P ?t3 = CHR ''/'' # (''pull/'' @ digits @ rest)"
    using r(2) by (rule split_at_slash)+
  have t5: "take 5 (''pull/'' @ digits @ rest) = ''pull/''"
    and d5: "drop 5 (''pull/'' @ digits @ rest) = digits @ rest"
    by simp_all
  have hd: "in_class Digit (hd (digits @ rest))" and ne: "digits @ rest \<noteq> []"
    using d by (cases digits; simp del: in_class.simps)+
  show ?thesis
    by (simp only: re_match_pattern a tw1 dw1 list.sel tw3 dw3 t5 d5 hd ne o(1) r(1)
        simp_thms if_True list.distinct not_False_eq_True)
qed

lemma match_has_shape:
  assumes "re_match pr_url_pattern url = Some groups"
  shows "\<exists>owner repo digits rest. has_shape url owner repo digits rest \<and> groups = [owner, repo]"
proof -
  let ?P = "\<lambda>c. c \<noteq> CHR ''/''"
  let ?r1 = "drop 19 url"
  let ?r3 = "tl (dropWhile ?P ?r1)"
  let ?r5 = "tl (dropWhile ?P ?r3)"
  let ?r6 = "drop 5 ?r5"
  let ?C = "take 19 url = ''https://github.com/''
         \<and> (takeWhile ?P ?r1 \<noteq> [] \<and> dropWhile ?P ?r1 \<noteq> [])
         \<and> (takeWhile ?P ?r3 \<noteq> [] \<and> dropWhile ?P ?r3 \<noteq> [])
         \<and> take 5 ?r5 = ''pull/'' \<and> ?r6 \<noteq> [] \<and> in_class Digit (hd ?r6)"
  have e: "(if ?C then Some [takeWhile ?P ?r1, takeWhile ?P ?r3] else None) = Some groups"
    using assms unfolding re_match_pattern .
  have C: "?C"
  proof (rule ccontr)
    assume "\<not> ?C"
    then have "(if ?C then Some [takeWhile ?P ?r1, takeWhile ?P ?r3] else None) = None"
      by (simp only: if_False)
    with e show False by simp
  qed
  have g: "groups = [takeWhile ?P ?r1, takeWhile ?P ?r3]"
  proof -
    have "(if ?C then Some [takeWhile ?P ?r1, takeWhile ?P ?r3] else None)
        = Some [takeWhile ?P ?r1, takeWhile ?P ?r3]"
      using C by (rule if_P)
    with e show ?thesis by simp
  qed
  from C have c: "take 19 url = ''https://github.com/''"
    "takeWhile ?P ?r1 \<noteq> []" "dropWhile ?P ?r1 \<noteq> []"
    "takeWhile ?P ?r3 \<noteq> []" "dropWhile ?P ?r3 \<noteq> []"
    "take 5 ?r5 = ''pull/''" "?r6 \<noteq> []" "in_class Digit (hd ?r6)"
    by blast+
  have "url = take 19 url @ ?r1" by simp
  also have "?r1 = takeWhile ?P ?r1 @ dropWhile ?P ?r1" by simp
  also have "dropWhile ?P ?r1 = CHR ''/'' # ?r3" using c(3) by (rule dropWhile_slash)
  also have "?r3 = takeWhile ?P ?r3 @ dropWhile ?P ?r3" by simp
  also have "dropWhile ?P ?r3 = CHR ''/'' # ?r5" using c(5) by (rule dropWhile_slash)
  also have "?r5 = take 5 ?r5 @ ?r6" by simp
  also have "?r6 = [hd ?r6] @ tl ?r6" using c(7) by simp
  finally have url: "url = ''https://github.com/'' @ takeWhile ?P ?r1 @ ''/'' @ takeWhile ?P ?r3
      @ ''/pull/'' @ [hd ?r6] @ tl ?r6"
    by (simp only: c(1) c(6) append.simps append_assoc)
  have ns: "CHR ''/'' \<notin> set (takeWhile ?P r)" for r
    using set_takeWhileD by fastforce
  have "has_shape url (takeWhile ?P ?r1) (takeWhile ?P ?r3) [hd ?r6] (tl ?r6)"
    unfolding has_shape_def using url c(2) c(4) c(8) ns by (simp del: in_class.simps)
  then show ?thesis using g by blast
qed

text \<open>
  C4 (amended). \<open>extract_repo_from_url\<close> returns "owner/repo" exactly when the URL
  starts with a text of the shape \<^verbatim>\<open>https://github.com/<owner>/<repo>/pull/<digits>\<close>
  (owner and repo not empty and free of the slash, at least one digit), whatever follows
  that text, and it returns nothing for every other URL.
\<close>

theorem extract_repo_from_url_prefix_shape:
  "(extract_repo_from_url url = Some res
    \<longleftrightarrow> (\<exists>owner repo digits rest.
          has_shape url owner repo digits rest \<and> res = owner @ ''/'' @ repo))
   \<and> (extract_repo_from_url url = None
    \<longleftrightarrow> \<not> (\<exists>owner repo digits rest. has_shape url owner repo digits rest))"
proof -
  have some: "extract_repo_from_url url = Some res'
    \<longleftrightarrow> (\<exists>owner repo digits rest.
          has_shape url owner repo digits rest \<and> res' = owner @ ''/'' @ repo)" for res'
  proof
    assume a: "extract_repo_from_url url = Some res'"
    then obtain groups where m: "re_match pr_url_pattern url = Some groups"
      by (auto simp: extract_repo_from_url_def split: option.splits)
    then obtain owner repo digits rest
      where h: "has_shape url owner repo digits rest" and g: "groups = [owner, repo]"
      using match_has_shape by blast
    from a m g have "res' = owner @ ''/'' @ repo"
      by (simp add: extract_repo_from_url_def)
    with h show "\<exists>owner repo digits rest.
        has_shape url owner repo digits rest \<and> res' = owner @ ''/'' @ repo"
      by blast
  next
    assume "\<exists>owner repo digits rest.
        has_shape url owner repo digits rest \<and> res' = owner @ ''/'' @ repo"
    then obtain owner repo digits rest
      where h: "has_shape url owner repo digits rest" and r: "res' = owner @ ''/'' @ repo"
      by blast
    from shape_matches [OF h] r show "extract_repo_from_url url = Some res'"
      by (simp add: extract_repo_from_url_def)
  qed
  have "extract_repo_from_url url = None \<longleftrightarrow> (\<forall>res'. extract_repo_from_url url \<noteq> Some res')"
    by (cases "extract_repo_from_url url") simp_all
  also have "\<dots> \<longleftrightarrow> \<not> (\<exists>owner repo digits rest. has_shape url owner repo digits rest)"
    unfolding some by blast
  finally show ?thesis using some by blast
qed

text \<open>The example of the spec.\<close>

lemma extract_repo_from_url_example:
  "extract_repo_from_url ''https://github.com/acme/widgets/pull/7200'' = Some ''acme/widgets''"
  by (simp add: extract_repo_from_url_def pr_url_pattern_def)

lemma exact_shape_last_digit:
  assumes "has_shape url owner repo digits []"
  shows "in_class Digit (last url)"
proof -
  from assms have "url = (''https://github.com/'' @ owner @ ''/'' @ repo @ ''/pull/'') @ digits"
    and d: "digits \<noteq> []" "list_all (in_class Digit) digits"
    by (simp_all add: has_shape_def)
  then have "last url = last digits" using d(1) by (simp only: last_append if_False)
  moreover have "in_class Digit (last digits)"
    using d by (simp add: list_all_iff del: in_class.simps)
  ultimately show ?thesis by simp
qed

text \<open>
  C4 (as stated). A URL that continues after the digits does not have exactly the shape
  \<^verbatim>\<open>https://github.com/<owner>/<repo>/pull/<digits>\<close> (it does not end in a digit), and
  \<open>extract_repo_from_url\<close> returns "acme/widgets" for it: \<^verbatim>\<open>re.match\<close> does not anchor the
  pattern at the end of the text.
\<close>

theorem extract_repo_from_url_trailing_counterexample:
  "extract_repo_from_url ''https://github.com/acme/widgets/pull/7200/files''
     = Some ''acme/widgets''
   \<and> \<not> (\<exists>owner repo digits.
          has_shape ''https://github.com/acme/widgets/pull/7200/files'' owner repo digits [])"
proof -
  have "extract_repo_from_url ''https://github.com/acme/widgets/pull/7200/files''
      = Some ''acme/widgets''"
    by (simp add: extract_repo_from_url_def pr_url_pattern_def)
  moreover have "\<not> in_class Digit (last ''https://github.com/acme/widgets/pull/7200/files'')"
    by simp
  ultimately show ?thesis using exact_shape_last_digit by blast
qed

section \<open>Enhancement script: the fallback record\<close>

lemma py_int_isdigit: "isdigit s \<Longrightarrow> py_int s = Inr (decimal_value s)"
  by (cases s) (auto simp: py_int_def isdigit_def)

lemma digits_or_zero_ok:
  assumes "well_formed_number (row k)"
  shows "\<exists>n. digits_or_zero row k = Inr n"
  using assms
  by (auto simp: digits_or_zero_def well_formed_number_def row_get_def py_int_isdigit
      split: option.splits)

lemma net_lines_or_zero_ok:
  assumes "well_formed_net_lines (row ''Net Lines'')"
  shows "\<exists>n. net_lines_or_zero row = Inr n"
proof (cases "row ''Net Lines''")
  case None
  then show ?thesis by (simp add: net_lines_or_zero_def row_get_def isdigit_def)
next
  case (Some c)
  then obtain s where c: "c = Some s"
    using assms by (cases c) (simp_all add: well_formed_net_lines_def)
  show ?thesis
  proof (cases "isdigit (filter (\<lambda>c. c \<noteq> CHR ''-'') s)")
    case False
    then show ?thesis using Some c by (simp add: net_lines_or_zero_def row_get_def)
  next
    case True
    then have "isdigit s \<or> (s \<noteq> [] \<and> hd s = CHR ''-'' \<and> isdigit (tl s))"
      using assms Some c by (simp add: well_formed_net_lines_def)
    then have "\<exists>n. py_int s = Inr n"
    proof
      assume "isdigit s"
      then show ?thesis by (simp add: py_int_isdigit)
    next
      assume "s \<noteq> [] \<and> hd s = CHR ''-'' \<and> isdigit (tl s)"
      then show ?thesis by (cases s) (simp_all add: py_int_def)
    qed
    then show ?thesis using True Some c by (simp add: net_lines_or_zero_def row_get_def)
  qed
qed

lemma reduced_record_ok:
  assumes "well_formed_row row"
  shows "\<exists>r. reduced_record row repo n = Inr r
     \<and> map_of r ''enhancement_failed'' = Some (JBool True)
     \<and> map_of r ''repository'' = Some (JStr repo)
     \<and> map_of r ''title'' = Some (cell_json (the (row ''Title'')))
     \<and> map_of r ''url'' = Some (cell_json (the (row ''URL'')))"
proof -
  from assms obtain t st cr u where f: "row ''Title'' = Some t" "row ''State'' = Some st"
    "row ''Created At'' = Some cr" "row ''URL'' = Some u"
    by (auto simp: well_formed_row_def)
  obtain a where a: "digits_or_zero row ''Additions'' = Inr a"
    using assms digits_or_zero_ok by (auto simp: well_formed_row_def)
  obtain d where d: "digits_or_zero row ''Deletions'' = Inr d"
    using assms digits_or_zero_ok by (auto simp: well_formed_row_def)
  obtain nl where nl: "net_lines_or_zero row = Inr nl"
    using assms net_lines_or_zero_ok by (auto simp: well_formed_row_def)
  show ?thesis
    by (simp add: reduced_record_def py_bind_def row_item_def f a d nl)
qed

lemma process_row_fallback:
  assumes "well_formed_row row" and "\<And>repo n. get_pr_details repo n = None"
  shows "\<exists>out. process_row get_pr_details enhanced_record row = Inr out
     \<and> length out = (if url_parses row then 1 else 0)
     \<and> (\<forall>r \<in> set out. map_of r ''enhancement_failed'' = Some (JBool True))"
proof -
  from assms(1) obtain u n where u: "row ''URL'' = Some (Some u)" and n: "row ''PR #'' = Some n"
    by (auto simp: well_formed_row_def)
  show ?thesis
  proof (cases "extract_repo_from_url u")
    case None
    then show ?thesis
      by (simp add: process_row_def py_bind_def row_item_def u n url_parses_def)
  next
    case (Some repo)
    obtain r where "reduced_record row repo n = Inr r"
      "map_of r ''enhancement_failed'' = Some (JBool True)"
      using reduced_record_ok [OF assms(1)] by blast
    then show ?thesis using Some
      by (simp add: process_row_def py_bind_def row_item_def u n url_parses_def assms(2))
  qed
qed

lemma enhance_rows_fallback:
  assumes "\<forall>row \<in> set rows. well_formed_row row" and "\<And>repo n. get_pr_details repo n = None"
  shows "\<exists>out. enhance_rows get_pr_details enhanced_record acc rows = Inr (acc @ out)
     \<and> length out = length (filter url_parses rows)
     \<and> (\<forall>r \<in> set out. map_of r ''enhancement_failed'' = Some (JBool True))"
  using assms(1)
proof (induction rows arbitrary: acc)
  case Nil
  then show ?case by simp
next
  case (Cons row rows)
  then have "well_formed_row row" by simp
  then obtain new where new: "process_row get_pr_details enhanced_record row = Inr new"
    "length new = (if url_parses row then 1 else 0)"
    "\<forall>r \<in> set new. map_of r ''enhancement_failed'' = Some (JBool True)"
    using process_row_fallback [of row get_pr_details enhanced_record] assms(2) by blast
  from Cons obtain out where out:
    "enhance_rows get_pr_details enhanced_record (acc @ new) rows = Inr ((acc @ new) @ out)"
    "length out = length (filter url_parses rows)"
    "\<forall>r \<in> set out. map_of r ''enhancement_failed'' = Some (JBool True)"
    by (metis list.set_intros(2))
  have "enhance_rows get_pr_details enhanced_record acc (row # rows) = Inr (acc @ (new @ out))"
    using new(1) out(1) by (simp add: py_bind_def)
  moreover have "length (new @ out) = length (filter url_parses (row # rows))"
    using new(2) out(2) by simp
  moreover have "\<forall>r \<in> set (new @ out). map_of r ''enhancement_failed'' = Some (JBool True)"
    using new(3) out(3) by auto
  ultimately show ?case by blast
qed

text \<open>
  When every row is well formed and every call of the GitHub CLI fails, the function
  emits one record for each row whose URL parses, each with \<open>enhancement_failed\<close> set.
\<close>

lemma enhance_pr_data_fallback:
  assumes "\<forall>row \<in> set rows. well_formed_row row" and "\<And>repo n. get_pr_details repo n = None"
  shows "\<exists>out. enhance_pr_data get_pr_details enhanced_record rows = Inr out
     \<and> length out = length (filter url_parses rows)
     \<and> (\<forall>r \<in> set out. map_of r ''enhancement_failed'' = Some (JBool True))"
  using enhance_rows_fallback [of rows get_pr_details enhanced_record "[]"] assms
  by (simp add: enhance_pr_data_def)

text \<open>
  C8. A row whose URL parses and whose "Net Lines" cell is the text \<open>1-2\<close>, with the
  call of the GitHub CLI failing: the cell without its minus sign is \<open>12\<close> and passes the
  digit test, \<^verbatim>\<open>int('1-2')\<close> raises \<^verbatim>\<open>ValueError\<close>, nothing catches it, and the function
  ends without a record for the row, whatever the branch for a successful call does.
\<close>

theorem enhance_pr_data_net_lines_raises:
  "enhance_pr_data (\<lambda>repo n. None) enhanced_record
     [a_row ''https://github.com/acme/widgets/pull/7200'' ''1-2''] = Inl ValueError"
  by (simp add: enhance_pr_data_def process_row_def py_bind_def row_item_def a_row_def
      extract_repo_from_url_def pr_url_pattern_def reduced_record_def digits_or_zero_def
      net_lines_or_zero_def row_get_def isdigit_def py_int_def decimal_value_def)

text \<open>The same row with the "Net Lines" cell \<open>-125\<close> gives the reduced record.\<close>

lemma enhance_pr_data_reduced_example:
  "enhance_pr_data (\<lambda>repo n. None) enhanced_record
     [a_row ''https://github.com/acme/widgets/pull/7200'' ''-125'']
   = Inr [[(''repository'', JStr ''acme/widgets''), (''pr_number'', JStr ''7200''),
           (''title'', JStr ''Add widget''), (''original_state'', JStr ''MERGED''),
           (''created_at'', JStr ''2024-01-15''), (''merged_at'', JStr ''2024-01-16''),
           (''closed_at'', JStr ''2024-01-16''), (''original_additions'', JInt 150),
           (''original_deletions'', JInt 25), (''net_lines'', JInt (- 125)),
           (''url'', JStr ''https://github.com/acme/widgets/pull/7200''),
           (''description'', JStr []), (''enhancement_failed'', JBool True)]]"
  by (simp add: enhance_pr_data_def process_row_def py_bind_def row_item_def a_row_def
      extract_repo_from_url_def pr_url_pattern_def reduced_record_def digits_or_zero_def
      net_lines_or_zero_def row_get_def isdigit_def py_int_def decimal_value_def cell_json_def)


section \<open>Scraper: the pull requests of a repository\<close>

text \<open>
  With both flags set the first state is "closed"; when its fetch exits with code 0 and
  prints a JSON document, the function returns from inside the loop: the fetches of the
  states "merged" and "open" are not run. The list it returns is empty when the
  conversion or the date filter raises.
\<close>

lemma get_prs_for_repo_first_state:
  assumes "gh (pr_list_cmd repo username @ [''--state'', ''closed'']) = Exited 0 (Some prs_data)"
  shows "get_prs_for_repo gh fromisoformat repo username date_from date_to True True
     = (case convert_to_pr_data fromisoformat prs_data username (Some repo) of
          Inl e \<Rightarrow> []
        | Inr repo_prs \<Rightarrow>
            if date_from \<noteq> None \<or> date_to \<noteq> None
            then (case filter_prs_by_date repo_prs date_from date_to of
                    Inl e \<Rightarrow> [] | Inr filtered \<Rightarrow> filtered)
            else repo_prs,
        [pr_list_cmd repo username @ [''--state'', ''closed'']])"
  using assms by (simp add: get_prs_for_repo_def Let_def split: sum.splits)

text \<open>The date filter keeps the pull requests within the bounds when every bound given
  is of the same kind as the creation times.\<close>

lemma dt_less_same_kind: "same_kind a b \<Longrightarrow> dt_less a b = Inr (instant a < instant b)"
  by (cases a; cases b) (simp_all add: same_kind_def instant_def)

lemma filter_prs_by_date_comparable:
  assumes "\<forall>pr \<in> set ps. \<forall>d. date_from = Some d \<or> date_to = Some d \<longrightarrow> same_kind (g_created_at pr) d"
  shows "filter_prs_by_date ps date_from date_to = Inr (filter (in_range date_from date_to) ps)"
  using assms
proof (induction ps)
  case Nil
  then show ?case by simp
next
  case (Cons pr ps)
  then have ih: "filter_prs_by_date ps date_from date_to = Inr (filter (in_range date_from date_to) ps)"
    by simp
  have f: "(case date_from of None \<Rightarrow> Inr False | Some d \<Rightarrow> dt_less (g_created_at pr) d)
      = Inr (case date_from of None \<Rightarrow> False | Some d \<Rightarrow> instant (g_created_at pr) < instant d)"
    using Cons.prems by (cases date_from) (simp_all add: dt_less_same_kind)
  have t: "(case date_to of None \<Rightarrow> Inr False | Some d \<Rightarrow> dt_less d (g_created_at pr))
      = Inr (case date_to of None \<Rightarrow> False | Some d \<Rightarrow> instant d < instant (g_created_at pr))"
  proof (cases date_to)
    case None
    then show ?thesis by simp
  next
    case (Some d)
    then have "same_kind (g_created_at pr) d" using Cons.prems by simp
    then have "same_kind d (g_created_at pr)"
      by (cases d; cases "g_created_at pr") (simp_all add: same_kind_def)
    then show ?thesis using Some by (simp add: dt_less_same_kind)
  qed
  have k: "in_range date_from date_to pr
      \<longleftrightarrow> \<not> (case date_from of None \<Rightarrow> False | Some d \<Rightarrow> instant (g_created_at pr) < instant d)
        \<and> \<not> (case date_to of None \<Rightarrow> False | Some d \<Rightarrow> instant d < instant (g_created_at pr))"
    by (auto simp: in_range_def split: option.splits)
  show ?case
    by (simp add: f t ih py_bind_def k)
qed

lemma get_prs_for_repo_closed_only:
  assumes "gh (pr_list_cmd repo username @ [''--state'', ''closed'']) = Exited 0 (Some prs_data)"
    and "convert_to_pr_data fromisoformat prs_data username (Some repo) = Inr ps"
    and "\<forall>pr \<in> set ps. \<forall>d. date_from = Some d \<or> date_to = Some d
           \<longrightarrow> same_kind (g_created_at pr) d"
  shows "get_prs_for_repo gh fromisoformat repo username date_from date_to True True
     = (if date_from \<noteq> None \<or> date_to \<noteq> None
        then filter (in_range date_from date_to) ps else ps,
        [pr_list_cmd repo username @ [''--state'', ''closed'']])"
  using get_prs_for_repo_first_state [of gh repo username prs_data fromisoformat date_from date_to]
    filter_prs_by_date_comparable [OF assms(3)] assms(1)
  by (simp add: assms(2) del: filter_prs_by_date.simps)

text \<open>
  C3. Both flags set, the fetch of the closed pull requests succeeding with one pull
  request whose creation time, as the GitHub CLI prints it, carries the UTC marker, and
  a lower date bound without an offset (as the command line produces it): the converted
  list holds the pull request, the comparison of its creation time with the bound
  raises, and the function returns the empty list. The fetch of the closed state is the
  only command it has run.
\<close>

theorem get_prs_for_repo_naive_bound:
  assumes "gh (pr_list_cmd ''acme/widgets'' ''u'' @ [''--state'', ''closed''])
      = Exited 0 (Some (JArr [closed_pr_json]))"
    and "fromisoformat ''2024-01-15T10:30:00+00:00'' = Some (Aware created)"
    and "fromisoformat ''2024-01-16T10:30:00+00:00'' = Some (Aware closed_time)"
  shows "get_prs_for_repo gh fromisoformat ''acme/widgets'' ''u'' (Some (Naive bound)) None True True
       = ([], [pr_list_cmd ''acme/widgets'' ''u'' @ [''--state'', ''closed'']])
     \<and> (\<exists>pr. convert_to_pr_data fromisoformat (JArr [closed_pr_json]) ''u'' (Some ''acme/widgets'')
            = Inr [pr] \<and> g_created_at pr = Aware created)"
proof -
  have r: "replace_Z ''2024-01-15T10:30:00Z'' = ''2024-01-15T10:30:00+00:00''"
    "replace_Z ''2024-01-16T10:30:00Z'' = ''2024-01-16T10:30:00+00:00''"
    by (simp_all add: replace_Z_def)
  have e: "\<exists>pr. convert_entry fromisoformat ''u'' (Some ''acme/widgets'') closed_pr_json = Some pr
      \<and> g_created_at pr = Aware created"
    by (simp add: convert_entry_def closed_pr_json_def jget_def as_str_def as_int_def
        optional_time_def convert_labels_def calculate_time_metrics_def py_bind_def r assms(2,3)
        Let_def)
  then obtain pr where pr: "convert_entry fromisoformat ''u'' (Some ''acme/widgets'') closed_pr_json = Some pr"
    "g_created_at pr = Aware created" by blast
  have c: "convert_to_pr_data fromisoformat (JArr [closed_pr_json]) ''u'' (Some ''acme/widgets'') = Inr [pr]"
    by (simp add: convert_to_pr_data_def iterate_def py_bind_def List.map_filter_def pr(1))
  have f: "filter_prs_by_date [pr] (Some (Naive bound)) None = Inl TypeError"
    by (simp add: pr(2) py_bind_def)
  have "get_prs_for_repo gh fromisoformat ''acme/widgets'' ''u'' (Some (Naive bound)) None True True
       = ([], [pr_list_cmd ''acme/widgets'' ''u'' @ [''--state'', ''closed'']])"
    using get_prs_for_repo_first_state [of gh "''acme/widgets''" "''u''" "JArr [closed_pr_json]"
        fromisoformat "Some (Naive bound)" None] assms(1)
    by (simp add: c f del: filter_prs_by_date.simps)
  then show ?thesis using c pr(2) by blast
qed

theorem get_prs_for_repo_naive_bound_witness:
  "get_prs_for_repo gh_closed_succeeds utc_fromisoformat ''acme/widgets'' ''u''
       (Some (Naive 1704067200000000)) None True True
     = ([], [pr_list_cmd ''acme/widgets'' ''u'' @ [''--state'', ''closed'']])"
  using get_prs_for_repo_naive_bound [of gh_closed_succeeds utc_fromisoformat 1705314600000000 1705401000000000 1704067200000000]
  by (simp add: gh_closed_succeeds_def utc_fromisoformat_def)

end
